theory Spec2Isabelle
  imports Main "HOL-Library.Char_ord" "HOL-Library.List_Lexorder" "HOL-Library.Multiset"
begin

section \<open>tools/process\_smc.py: the data the script handles\<close>

text \<open>
  The script \<^verbatim>\<open>tools/process_smc.py\<close> drives a multi-view capture through external
  collaborators: the file system, the capture reader, the estimator, the writers of
  the keypoint and body-model objects and the renderers. The model below is the
  function \<^verbatim>\<open>main\<close> of that script, statement by statement. Every call that acts
  outside the script (on the file system, the logger, the capture, the estimator, the
  renderers) is an \<^emph>\<open>event\<close> of a trace, in program order; what the call returns
  (or the exception it raises) is read from an environment record. The queries
  \<^verbatim>\<open>check_path_existence\<close> and \<^verbatim>\<open>glob.glob\<close> and the array helpers \<^verbatim>\<open>rgb2bgr\<close> and
  \<^verbatim>\<open>np.expand_dims\<close> change nothing and are read from the environment without an
  event. An exception ends the run: the script has no \<^verbatim>\<open>try\<close>.
\<close>

subsection \<open>Strings, paths and number formatting\<close>

text \<open>\<^verbatim>\<open>s.rsplit(c, 1)[-1]\<close>: what follows the last \<open>c\<close>, the whole string without one.\<close>

definition rsplit_last :: "char \<Rightarrow> string \<Rightarrow> string" where
  "rsplit_last c s = rev (takeWhile (\<lambda>x. x \<noteq> c) (rev s))"

text \<open>\<^verbatim>\<open>s.rsplit(c, 1)[0]\<close>: what precedes the last \<open>c\<close>, the whole string without one.\<close>

definition rsplit_first :: "char \<Rightarrow> string \<Rightarrow> string" where
  "rsplit_first c s =
     (if c \<in> set s then rev (tl (dropWhile (\<lambda>x. x \<noteq> c) (rev s))) else s)"

text \<open>\<^verbatim>\<open>os.path.join(a, b)\<close> of posixpath, for two components.\<close>

definition os_path_join :: "string \<Rightarrow> string \<Rightarrow> string" where
  "os_path_join a b =
     (if b \<noteq> [] \<and> hd b = CHR ''/'' then b
      else if a = [] \<or> last a = CHR ''/'' then a @ b
      else a @ ''/'' @ b)"

definition digit_char :: "nat \<Rightarrow> char" where
  "digit_char d = ''0123456789'' ! d"

function str_of_nat :: "nat \<Rightarrow> string" where
  "str_of_nat n =
     (if n < 10 then [digit_char n]
      else str_of_nat (n div 10) @ [digit_char (n mod 10)])"
  by pat_completeness auto
termination
  by (relation "measure id") auto

declare str_of_nat.simps [simp del]

text \<open>The format \<^verbatim>\<open>{n:02d}\<close> of a non-negative integer: decimal, zero-padded on the
  left to at least two characters.\<close>

definition fmt_02d :: "nat \<Rightarrow> string" where
  "fmt_02d n = (let s = str_of_nat n in replicate (2 - length s) CHR ''0'' @ s)"

text \<open>\<^verbatim>\<open>range(start, stop, step)\<close> for non-negative arguments; Python refuses step 0,
  and the script only uses step 3.\<close>

function range_step :: "nat \<Rightarrow> nat \<Rightarrow> nat \<Rightarrow> nat list" where
  "range_step i n s =
     (if s = 0 then [] else if i < n then i # range_step (i + s) n s else [])"
  by pat_completeness auto
termination
  by (relation "measure (\<lambda>(i, n, s). n - i)") auto

declare range_step.simps [simp del]

subsection \<open>Values of the collaborators\<close>

text \<open>The enumeration \<^verbatim>\<open>Existence\<close> returned by \<^verbatim>\<open>check_path_existence\<close>.\<close>

datatype Existence =
    FileExist
  | DirectoryExistEmpty
  | DirectoryExistNotEmpty
  | MissingParent
  | DirectoryNotExist
  | FileNotExist

text \<open>The exceptions of a run: those the script raises or provokes itself, and
  whatever a collaborator raises.\<close>

datatype error =
    FileNotFoundError
  | AttributeError
  | IndexError
  | ValueError
  | CollaboratorError string

text \<open>
  Arrays and keypoint objects are opaque to the script: it passes them on. They are
  values of one type \<open>'a\<close>. A camera parameter is the object the script reads the flag
  \<^verbatim>\<open>world2cam\<close> and the matrices \<^verbatim>\<open>K\<close>, \<^verbatim>\<open>R\<close>, \<^verbatim>\<open>T\<close> of.
\<close>

record 'a camera_parameter =
  intrinsic :: 'a
  extrinsic_r :: 'a
  extrinsic_t :: 'a
  world2cam :: bool

text \<open>The body-model parameters: an \<^verbatim>\<open>SMPLXData\<close> object or another one
  (\<^verbatim>\<open>isinstance(smpl_data, SMPLXData)\<close> tells them apart).\<close>

datatype 'a smpl_data = SMPLData 'a | SMPLXData 'a

text \<open>The calls that leave the script, with the arguments the script passes.\<close>

datatype 'a event =
    Mkdir string
  | SetupLogger "string option"
  | SMCReader string
  | BuildEstimator string
  | LoadCameraParameters
  | PrepareOutputPath string
  | GetKinectColor nat
  | EstimateKeypoints2d 'a
  | ArrayToImages 'a string
  | EstimatorRun "'a camera_parameter list" "string list list"
  | EstimateKeypoints3d "'a camera_parameter list" "'a option list"
  | EstimateSmpl "'a option"
  | DumpKeypoints2d 'a string
  | LogWarning string
  | DumpKeypoints3d 'a string
  | DumpSmpl "'a smpl_data" string
  | Rmtree string
  | GetProjector
  | VisualizeKp3d 'a string
  | Project 'a
  | VisualizeKp2d nat 'a string
  | VisualizeSmplCalibration "'a smpl_data" "'a camera_parameter" 'a string

record args =
  smc_path :: string
  output_dir :: string
  estimator_config :: string
  visualize :: bool
  frame_file :: string
  disable_log_file :: bool

text \<open>
  The environment of one run: what each collaborator answers when the script asks.
  \<open>effect\<close> answers the calls made for their effect (\<open>None\<close>: the call returns,
  \<open>Some e\<close>: it raises \<open>e\<close>). \<open>check_path_existence\<close> and \<open>glob\<close> answer for the
  moment at which the script asks; the script asks about each path once. The capture
  is read-only: \<open>get_kinect_color\<close> answers the same for a view each time.
  \<open>projector_n_view\<close> is \<^verbatim>\<open>len(projector.camera_parameters)\<close>. \<open>linalg_inv\<close> and
  \<open>neg_dot\<close> are the two array operations of \<^verbatim>\<open>inverse_extrinsic\<close>.
\<close>

record 'a env =
  now_str :: string
  check_path_existence :: "string \<Rightarrow> string \<Rightarrow> Existence"
  effect :: "'a event \<Rightarrow> error option"
  num_kinects :: nat
  get_kinect_color :: "nat \<Rightarrow> error + 'a"
  rgb2bgr :: "'a \<Rightarrow> 'a"
  expand_dims0 :: "'a \<Rightarrow> 'a"
  get_all_color_kinect_parameter_from_smc :: "error + 'a camera_parameter list"
  estimate_keypoints2d :: "'a \<Rightarrow> error + 'a option list"
  estimate_keypoints3d ::
    "'a camera_parameter list \<Rightarrow> 'a option list \<Rightarrow> error + 'a option"
  estimate_smpl :: "'a option \<Rightarrow> error + 'a smpl_data option"
  run ::
    "'a camera_parameter list \<Rightarrow> string list list
       \<Rightarrow> error + ('a option list \<times> 'a option \<times> 'a smpl_data option)"
  glob :: "string \<Rightarrow> string list"
  projector_n_view :: nat
  linalg_inv :: "'a \<Rightarrow> 'a"
  neg_dot :: "'a \<Rightarrow> 'a \<Rightarrow> 'a"

subsection \<open>Sequencing with a trace and exceptions\<close>

type_synonym ('e, 'r) prog = "'e list \<times> (error + 'r)"

definition done_with :: "'r \<Rightarrow> ('e, 'r) prog" where
  "done_with x = ([], Inr x)"

definition raise_err :: "error \<Rightarrow> ('e, 'r) prog" where
  "raise_err e = ([], Inl e)"

definition and_then :: "('e, 'r) prog \<Rightarrow> ('r \<Rightarrow> ('e, 's) prog) \<Rightarrow> ('e, 's) prog" where
  "and_then m f =
     (case snd m of
        Inl e \<Rightarrow> (fst m, Inl e)
      | Inr x \<Rightarrow> (fst m @ fst (f x), snd (f x)))"

text \<open>A call that returns a value: the event, then the collaborator's answer.\<close>

definition call :: "'e \<Rightarrow> error + 'r \<Rightarrow> ('e, 'r) prog" where
  "call ev answer = ([ev], answer)"

text \<open>A call made for its effect.\<close>

definition perform :: "'a env \<Rightarrow> 'a event \<Rightarrow> ('a event, unit) prog" where
  "perform env ev = call ev (case effect env ev of None \<Rightarrow> Inr () | Some e \<Rightarrow> Inl e)"

text \<open>A \<^verbatim>\<open>for\<close> loop over a list, threading the loop's variables.\<close>

fun for_each :: "('i \<Rightarrow> 's \<Rightarrow> ('e, 's) prog) \<Rightarrow> 'i list \<Rightarrow> 's \<Rightarrow> ('e, 's) prog" where
  "for_each body [] s = done_with s"
| "for_each body (i # is) s = and_then (body i s) (for_each body is)"

section \<open>The function main\<close>

subsection \<open>Names derived from the arguments\<close>

text \<open>Lines 35-36: \<^verbatim>\<open>file_name = args.smc_path.rsplit('/', 1)[-1]\<close> and
  \<^verbatim>\<open>smc_name = file_name.rsplit('.', 1)[0]\<close>.\<close>

definition file_name_of :: "args \<Rightarrow> string" where
  "file_name_of a = rsplit_last CHR ''/'' (smc_path a)"

definition smc_name_of :: "args \<Rightarrow> string" where
  "smc_name_of a = rsplit_first CHR ''.'' (file_name_of a)"

text \<open>Line 39: the path of the log file.\<close>

definition log_path :: "'a env \<Rightarrow> args \<Rightarrow> string" where
  "log_path env a =
     os_path_join (output_dir a) (smc_name_of a @ ''_'' @ now_str env @ ''.txt'')"

text \<open>Lines 58-59 and 79-80: the directory of the frames, and of the frames of one view.\<close>

definition frame_temp_dir :: "args \<Rightarrow> string" where
  "frame_temp_dir a = os_path_join (output_dir a) (smc_name_of a @ ''_temp_frames'')"

definition view_temp_dir :: "args \<Rightarrow> nat \<Rightarrow> string" where
  "view_temp_dir a kinect_index =
     os_path_join (frame_temp_dir a) (''view_'' @ fmt_02d kinect_index)"

text \<open>Lines 100-102, 108-109 and 115-116: the paths of the artifacts.\<close>

definition keypoints2d_path :: "args \<Rightarrow> nat \<Rightarrow> string" where
  "keypoints2d_path a index =
     os_path_join (output_dir a)
       (smc_name_of a @ ''_keypoints2d_'' @ ''view'' @ fmt_02d index @ ''.npz'')"

definition keypoints3d_path :: "args \<Rightarrow> string" where
  "keypoints3d_path a = os_path_join (output_dir a) (smc_name_of a @ ''_keypoints3d.npz'')"

definition smpl_path :: "args \<Rightarrow> string \<Rightarrow> string" where
  "smpl_path a smpl_type =
     os_path_join (output_dir a) (smc_name_of a @ ''_'' @ smpl_type @ ''_data.npz'')"

text \<open>Lines 148-150: the path of the video of one view's projection.\<close>

definition projected_path :: "args \<Rightarrow> nat \<Rightarrow> string" where
  "projected_path a view_idx =
     os_path_join (output_dir a)
       (smc_name_of a @ ''_projected'' @ ''_'' @ fmt_02d view_idx @ ''.mp4'')"

text \<open>Lines 111-114.\<close>

definition smpl_type_of :: "'a smpl_data option \<Rightarrow> string" where
  "smpl_type_of smpl_data =
     (case smpl_data of Some (SMPLXData _) \<Rightarrow> ''smplx'' | _ \<Rightarrow> ''smpl'')"

subsection \<open>Lines 30-55: paths, logger, capture, estimator, cameras\<close>

definition check_output_path :: "'a env \<Rightarrow> args \<Rightarrow> ('a event, unit) prog" where
  "check_output_path env a =
     (let exist_result = check_path_existence env (output_dir a) ''dir'' in
      if exist_result = MissingParent then raise_err FileNotFoundError
      else if exist_result = DirectoryNotExist then perform env (Mkdir (output_dir a))
      else done_with ())"

definition setup_logging :: "'a env \<Rightarrow> args \<Rightarrow> ('a event, unit) prog" where
  "setup_logging env a =
     (if \<not> disable_log_file a then perform env (SetupLogger (Some (log_path env a)))
      else perform env (SetupLogger None))"

definition check_input_path :: "'a env \<Rightarrow> args \<Rightarrow> ('a event, unit) prog" where
  "check_input_path env a =
     (let exist_result = check_path_existence env (smc_path a) ''file'' in
      if exist_result \<noteq> FileExist then raise_err FileNotFoundError else done_with ())"

definition load_inputs :: "'a env \<Rightarrow> args \<Rightarrow> ('a event, 'a camera_parameter list) prog" where
  "load_inputs env a =
     and_then (check_output_path env a) (\<lambda>_.
     and_then (setup_logging env a) (\<lambda>_.
     and_then (check_input_path env a) (\<lambda>_.
     and_then (perform env (SMCReader (smc_path a))) (\<lambda>_.
     and_then (perform env (BuildEstimator (estimator_config a))) (\<lambda>_.
     call LoadCameraParameters (get_all_color_kinect_parameter_from_smc env))))))"

subsection \<open>Lines 56-98: frames, 2D keypoints, 3D keypoints, body model\<close>

text \<open>Lines 57-69. The two lists of the loop are its state; the one the chosen
  branch does not define stays empty and is not read.\<close>

definition prepare_frames :: "'a env \<Rightarrow> args \<Rightarrow> ('a event, unit) prog" where
  "prepare_frames env a =
     (if frame_file a \<noteq> ''none'' then perform env (PrepareOutputPath (frame_temp_dir a))
      else done_with ())"

text \<open>Lines 71-90: the body of the loop over the views.\<close>

definition acquire_view ::
  "'a env \<Rightarrow> args \<Rightarrow> nat \<Rightarrow> 'a option list \<times> string list list
     \<Rightarrow> ('a event, 'a option list \<times> string list list) prog" where
  "acquire_view env a kinect_index st =
     (case st of (keypoints2d_list, mview_img_list) \<Rightarrow>
      if frame_file a = ''none'' then
        and_then (call (GetKinectColor kinect_index) (get_kinect_color env kinect_index))
          (\<lambda>sv_img_array.
        let sv_img_array = expand_dims0 env (rgb2bgr env sv_img_array) in
        and_then (call (EstimateKeypoints2d sv_img_array)
                    (estimate_keypoints2d env sv_img_array))
          (\<lambda>sv_keypoints2d_list.
        done_with (keypoints2d_list @ sv_keypoints2d_list, mview_img_list)))
      else
        let temp_dir_exist = check_path_existence env (view_temp_dir a kinect_index) ''dir'' in
        and_then
          (if \<not> (frame_file a = ''keep'' \<and> temp_dir_exist = DirectoryExistNotEmpty) then
             and_then (call (GetKinectColor kinect_index) (get_kinect_color env kinect_index))
               (\<lambda>sv_img_array.
             perform env
               (ArrayToImages (rgb2bgr env sv_img_array) (view_temp_dir a kinect_index)))
           else done_with ())
          (\<lambda>_.
        let sview_img_list =
              sort (glob env (os_path_join (view_temp_dir a kinect_index) ''*.png'')) in
        done_with (keypoints2d_list, mview_img_list @ [sview_img_list])))"

text \<open>Lines 70-90: \<^verbatim>\<open>for kinect_index in range(smc_reader.num_kinects)\<close>.\<close>

definition acquire ::
  "'a env \<Rightarrow> args \<Rightarrow> ('a event, 'a option list \<times> string list list) prog" where
  "acquire env a = for_each (acquire_view env a) [0 ..< num_kinects env] ([], [])"

text \<open>Lines 91-98.\<close>

definition estimate ::
  "'a env \<Rightarrow> args \<Rightarrow> 'a camera_parameter list \<Rightarrow> 'a option list \<times> string list list
     \<Rightarrow> ('a event, 'a option list \<times> 'a option \<times> 'a smpl_data option) prog" where
  "estimate env a cam_param_list st =
     (case st of (keypoints2d_list, mview_img_list) \<Rightarrow>
      if frame_file a \<noteq> ''none'' then
        call (EstimatorRun cam_param_list mview_img_list)
          (run env cam_param_list mview_img_list)
      else
        and_then (call (EstimateKeypoints3d cam_param_list keypoints2d_list)
                    (estimate_keypoints3d env cam_param_list keypoints2d_list))
          (\<lambda>keypoints3d.
        and_then (call (EstimateSmpl keypoints3d) (estimate_smpl env keypoints3d))
          (\<lambda>smpl_data.
        done_with (keypoints2d_list, keypoints3d, smpl_data))))"

definition reconstruct ::
  "'a env \<Rightarrow> args \<Rightarrow> 'a camera_parameter list
     \<Rightarrow> ('a event, 'a option list \<times> 'a option \<times> 'a smpl_data option) prog" where
  "reconstruct env a cam_param_list =
     and_then (prepare_frames env a) (\<lambda>_.
     and_then (acquire env a) (estimate env a cam_param_list))"

subsection \<open>Lines 99-117: the artifacts\<close>

text \<open>Lines 99-107: the body of \<^verbatim>\<open>for index, keypoints2d in enumerate(keypoints2d_list)\<close>.\<close>

definition write_keypoints2d ::
  "'a env \<Rightarrow> args \<Rightarrow> nat \<times> 'a option \<Rightarrow> unit \<Rightarrow> ('a event, unit) prog" where
  "write_keypoints2d env a entry u =
     (case entry of (index, keypoints2d) \<Rightarrow>
      (case keypoints2d of
         Some k \<Rightarrow> perform env (DumpKeypoints2d k (keypoints2d_path a index))
       | None \<Rightarrow>
           call (LogWarning
                   (''No keypoints2d has been detected in view'' @ fmt_02d index @ ''.''))
             (Inr ())))"

text \<open>Lines 99-117. \<^verbatim>\<open>keypoints3d.dump\<close> and \<^verbatim>\<open>smpl_data.dump\<close> on \<^verbatim>\<open>None\<close> raise
  AttributeError. The result is \<^verbatim>\<open>smpl_type\<close>.\<close>

definition write_results ::
  "'a env \<Rightarrow> args \<Rightarrow> 'a option list \<times> 'a option \<times> 'a smpl_data option
     \<Rightarrow> ('a event, string) prog" where
  "write_results env a res =
     (case res of (keypoints2d_list, keypoints3d, smpl_data) \<Rightarrow>
      and_then (for_each (write_keypoints2d env a) (enumerate 0 keypoints2d_list) ()) (\<lambda>_.
      and_then
        (case keypoints3d of
           None \<Rightarrow> raise_err AttributeError
         | Some k3 \<Rightarrow> perform env (DumpKeypoints3d k3 (keypoints3d_path a))) (\<lambda>_.
      let smpl_type = smpl_type_of smpl_data in
      and_then
        (case smpl_data of
           None \<Rightarrow> raise_err AttributeError
         | Some s \<Rightarrow> perform env (DumpSmpl s (smpl_path a smpl_type))) (\<lambda>_.
      done_with smpl_type))))"

subsection \<open>Lines 118-119: the temporary frames\<close>

definition cleanup :: "'a env \<Rightarrow> args \<Rightarrow> ('a event, unit) prog" where
  "cleanup env a =
     (if frame_file a = ''temp'' then perform env (Rmtree (frame_temp_dir a))
      else done_with ())"

subsection \<open>Lines 122-195: the videos\<close>

text \<open>Modelled from the spec: \<^verbatim>\<open>inverse_extrinsic\<close>, a method of the camera-parameter
  class that is missing from the source. The extrinsic "is stored as world-to-camera
  (requiring inversion) or camera-to-world", the two being inverse to each other:
  the rotation is inverted (\<open>linalg_inv\<close>), the translation becomes minus the new
  rotation applied to the old translation (\<open>neg_dot\<close>), and the flag is negated.\<close>

definition inverse_extrinsic :: "'a env \<Rightarrow> 'a camera_parameter \<Rightarrow> 'a camera_parameter" where
  "inverse_extrinsic env c =
     (let r_mat = linalg_inv env (extrinsic_r c);
          t_vec = neg_dot env r_mat (extrinsic_t c)
      in c\<lparr>extrinsic_r := r_mat, extrinsic_t := t_vec, world2cam := \<not> world2cam c\<rparr>)"

text \<open>Lines 141-153: the body of \<^verbatim>\<open>for view_idx in range(0, len(mview_kps2d), 3)\<close>.\<close>

definition visualize_projected ::
  "'a env \<Rightarrow> args \<Rightarrow> nat \<Rightarrow> unit \<Rightarrow> ('a event, unit) prog" where
  "visualize_projected env a view_idx u =
     and_then (call (GetKinectColor view_idx) (get_kinect_color env view_idx))
       (\<lambda>image_array.
     perform env
       (VisualizeKp2d view_idx (rgb2bgr env image_array) (projected_path a view_idx)))"

text \<open>Lines 125-153. The array \<^verbatim>\<open>mview_kps2d\<close> is reshaped to
  \<^verbatim>\<open>(n_view, n_frame, -1, 2)\<close>, so its length is \<^verbatim>\<open>n_view\<close>. With no camera in
  the projector the array is empty and numpy refuses the \<^verbatim>\<open>-1\<close> of the new shape:
  the \<^verbatim>\<open>reshape\<close> of line 140 raises ValueError. Any other failure of the projection or
  of its reshaping is the answer of the environment to the event \<open>Project\<close>.\<close>

definition visualize_keypoints3d ::
  "'a env \<Rightarrow> args \<Rightarrow> 'a option \<Rightarrow> ('a event, unit) prog" where
  "visualize_keypoints3d env a keypoints3d =
     (case keypoints3d of
        None \<Rightarrow> done_with ()
      | Some k3 \<Rightarrow>
          and_then (perform env
                      (VisualizeKp3d k3
                         (os_path_join (output_dir a) (smc_name_of a @ ''_keypoints3d.mp4''))))
            (\<lambda>_.
          let n_view = projector_n_view env in
          and_then (perform env (Project k3)) (\<lambda>_.
          and_then (if n_view = 0 then raise_err ValueError else done_with ()) (\<lambda>_.
          for_each (visualize_projected env a) (range_step 0 n_view 3) ()))))"

text \<open>Lines 154-195, with \<^verbatim>\<open>selected_kinect = 1\<close>; \<^verbatim>\<open>cam_param_list[1]\<close> raises
  IndexError on a shorter list.\<close>

definition visualize_smpl ::
  "'a env \<Rightarrow> args \<Rightarrow> 'a camera_parameter list \<Rightarrow> 'a smpl_data option \<Rightarrow> string
     \<Rightarrow> ('a event, unit) prog" where
  "visualize_smpl env a cam_param_list smpl_data smpl_type =
     (case smpl_data of
        None \<Rightarrow> done_with ()
      | Some s \<Rightarrow>
          let selected_kinect = 1 in
          if \<not> selected_kinect < length cam_param_list then raise_err IndexError
          else
            let cam_param = cam_param_list ! selected_kinect;
                cam_param = (if world2cam cam_param then inverse_extrinsic env cam_param
                             else cam_param)
            in
            and_then (call (GetKinectColor selected_kinect)
                        (get_kinect_color env selected_kinect))
              (\<lambda>image_array.
            perform env
              (VisualizeSmplCalibration s cam_param (rgb2bgr env image_array)
                 (os_path_join (output_dir a)
                    (smc_name_of a @ ''_'' @ smpl_type @ ''_overlay.mp4'')))))"

definition visualize_results ::
  "'a env \<Rightarrow> args \<Rightarrow> 'a camera_parameter list \<Rightarrow> 'a option \<Rightarrow> 'a smpl_data option \<Rightarrow> string
     \<Rightarrow> ('a event, unit) prog" where
  "visualize_results env a cam_param_list keypoints3d smpl_data smpl_type =
     (if visualize a then
        and_then (perform env GetProjector) (\<lambda>_.
        and_then (visualize_keypoints3d env a keypoints3d) (\<lambda>_.
        visualize_smpl env a cam_param_list smpl_data smpl_type))
      else done_with ())"

subsection \<open>The whole run\<close>

text \<open>Lines 30-117: everything up to the last artifact. The result is what the rest
  of the run reads.\<close>

definition process ::
  "'a env \<Rightarrow> args
     \<Rightarrow> ('a event, 'a camera_parameter list \<times> 'a option \<times> 'a smpl_data option \<times> string) prog"
  where
  "process env a =
     and_then (load_inputs env a) (\<lambda>cam_param_list.
     and_then (reconstruct env a cam_param_list) (\<lambda>res.
     and_then (write_results env a res) (\<lambda>smpl_type.
     done_with (cam_param_list, fst (snd res), snd (snd res), smpl_type))))"

definition main :: "'a env \<Rightarrow> args \<Rightarrow> ('a event, unit) prog" where
  "main env a =
     and_then (process env a) (\<lambda>(cam_param_list, keypoints3d, smpl_data, smpl_type).
     and_then (cleanup env a) (\<lambda>_.
     visualize_results env a cam_param_list keypoints3d smpl_data smpl_type))"

text \<open>A run, or a part of one, completes when it ends without an exception.\<close>

definition completes :: "('e, 'r) prog \<Rightarrow> bool" where
  "completes m = (case snd m of Inl e \<Rightarrow> False | Inr x \<Rightarrow> True)"

section \<open>A sample capture\<close>

text \<open>
  Four views. The capture file \<^verbatim>\<open>data/session07.smc\<close> exists, the output directory
  \<^verbatim>\<open>out\<close> exists and is empty, no frame directory exists yet, arrays are numbers, no
  collaborator raises, the 2D estimator detects nothing in the third view, and the
  fitter returns SMPL-X parameters.
\<close>

definition sample_cam :: "nat camera_parameter" where
  "sample_cam = \<lparr>intrinsic = 0, extrinsic_r = 1, extrinsic_t = 2, world2cam = False\<rparr>"

definition sample_env :: "nat env" where
  "sample_env =
     \<lparr>now_str = ''2022.01.01_00:00:00'',
      check_path_existence =
        (\<lambda>p t. if t = ''file''
                then (if p = ''data/session07.smc'' then FileExist else FileNotExist)
                else if p = ''out'' then DirectoryExistEmpty else DirectoryNotExist),
      effect = (\<lambda>_. None),
      num_kinects = 4,
      get_kinect_color = (\<lambda>k. Inr (100 + k)),
      rgb2bgr = (\<lambda>x. x),
      expand_dims0 = (\<lambda>x. x),
      get_all_color_kinect_parameter_from_smc = Inr (replicate 4 sample_cam),
      estimate_keypoints2d = (\<lambda>x. Inr [if x = 102 then None else Some (x + 100)]),
      estimate_keypoints3d = (\<lambda>c k. Inr (Some 7)),
      estimate_smpl = (\<lambda>k. Inr (Some (SMPLXData 9))),
      run = (\<lambda>c p. Inr ([Some 200, Some 201, None, Some 203], Some 7, Some (SMPLXData 9))),
      glob = (\<lambda>p. [rsplit_first CHR ''*'' p @ ''000001.png'',
                    rsplit_first CHR ''*'' p @ ''000000.png'']),
      projector_n_view = 4,
      linalg_inv = (\<lambda>x. x),
      neg_dot = (\<lambda>x y. y)\<rparr>"

definition sample_args :: args where
  "sample_args =
     \<lparr>smc_path = ''data/session07.smc'', output_dir = ''out'',
      estimator_config = ''configs/estimator.py'', visualize = True,
      frame_file = ''none'', disable_log_file = False\<rparr>"

text \<open>The same capture when the output directory \<^verbatim>\<open>out\<close> does not exist yet (its
  parent does).\<close>

definition bare_env :: "nat env" where
  "bare_env = sample_env\<lparr>check_path_existence :=
      (\<lambda>p t. if t = ''file''
              then (if p = ''data/session07.smc'' then FileExist else FileNotExist)
              else if p = ''out'' then DirectoryNotExist else MissingParent)\<rparr>"


section \<open>Reading a formatted number back\<close>

text \<open>The value of a string of decimal digits, as \<^verbatim>\<open>int(s)\<close> computes it. It is the
  inverse that shows the names built with \<^verbatim>\<open>{n:02d}\<close> are distinct for distinct
  indices.\<close>

definition digit_val :: "char \<Rightarrow> nat" where
  "digit_val c = of_char c - 48"

definition nat_of_str :: "string \<Rightarrow> nat" where
  "nat_of_str s = foldl (\<lambda>acc c. 10 * acc + digit_val c) 0 s"


section \<open>The artifacts of a trace\<close>

text \<open>The paths handed to the three \<^verbatim>\<open>dump\<close> calls of a trace, in order, and their
  last components: the names of the files in the output directory.\<close>

definition artifact_path :: "'a event \<Rightarrow> string option" where
  "artifact_path e =
     (case e of
        DumpKeypoints2d k p \<Rightarrow> Some p
      | DumpKeypoints3d k p \<Rightarrow> Some p
      | DumpSmpl d p \<Rightarrow> Some p
      | _ \<Rightarrow> None)"

definition artifact_names :: "'a event list \<Rightarrow> string list" where
  "artifact_names t = map (rsplit_last CHR ''/'') (List.map_filter artifact_path t)"


text \<open>The sample capture when an earlier run has left frames in the directory of the
  first view.\<close>

definition cached_env :: "nat env" where
  "cached_env = sample_env\<lparr>check_path_existence :=
      (\<lambda>p t. if p = ''out/session07_temp_frames/view_00'' then DirectoryExistNotEmpty
              else check_path_existence sample_env p t)\<rparr>"


section \<open>The triangulator of the specification\<close>

text \<open>
  The triangulation is done inside the estimator
  (\<^verbatim>\<open>estimate_keypoints3d\<close> of \<^verbatim>\<open>xrmocap.core.estimation\<close>), whose code is not part of
  \<^verbatim>\<open>tools/process_smc.py\<close>. The definitions of this section follow section 4.4 of the
  specification instead. The least-squares solver is a parameter \<open>solve\<close>: it maps
  the observations it is given (camera, 2D position) to a 3D position.
\<close>

text \<open>Modelled from the spec: the Keypoints2D of one view, missing from the source
  (a class of \<^verbatim>\<open>xrmocap.data_structure\<close>): "per-frame 2D joint coordinates plus a
  per-joint-per-frame validity mask", indexed by frame and joint.\<close>

record 'pt keypoints2d =
  points :: "nat \<Rightarrow> nat \<Rightarrow> 'pt"
  valid :: "nat \<Rightarrow> nat \<Rightarrow> bool"

text \<open>Modelled from the spec: the Keypoints3D, missing from the source: "per-frame 3D
  joint coordinates, a per-joint-per-frame validity mask". A joint that is not
  triangulated has no coordinate.\<close>

record 'p keypoints3d =
  kps3d :: "'p option list list"
  mask3d :: "bool list list"

text \<open>Modelled from the spec: when a view contributes to a joint in a frame, missing
  from the source (inside the triangulator): the view must "(a) have a Keypoints2D
  present and (b) mark that joint valid in that frame".\<close>

definition contributes :: "'pt keypoints2d option \<Rightarrow> nat \<Rightarrow> nat \<Rightarrow> bool" where
  "contributes view f j = (case view of None \<Rightarrow> False | Some k \<Rightarrow> valid k f j)"

text \<open>Modelled from the spec: the indices of the contributing views, in camera order
  (missing from the source, inside the triangulator).\<close>

definition contributing_views :: "'pt keypoints2d option list \<Rightarrow> nat \<Rightarrow> nat \<Rightarrow> nat list" where
  "contributing_views views f j = [v \<leftarrow> [0 ..< length views]. contributes (views ! v) f j]"

text \<open>Modelled from the spec: the triangulation of one joint in one frame, missing from
  the source: "each 3D joint position for a frame is computed only from views that
  [contribute]; a joint with fewer than two contributing views in a frame is marked
  invalid in the output mask rather than guessed".\<close>

definition triangulate_joint ::
  "(('c \<times> 'pt) list \<Rightarrow> 'p) \<Rightarrow> 'c list \<Rightarrow> 'pt keypoints2d option list \<Rightarrow> nat \<Rightarrow> nat
     \<Rightarrow> 'p option" where
  "triangulate_joint solve cams views f j =
     (let vs = contributing_views views f j in
      if length vs < 2 then None
      else Some (solve (map (\<lambda>v. (cams ! v, points (the (views ! v)) f j)) vs)))"

text \<open>Modelled from the spec: the Triangulator, missing from the source: "given all
  per-view Keypoints2D (some possibly absent) and the normalized CameraParameters,
  produce one Keypoints3D", for \<open>n_frame\<close> frames of \<open>n_joint\<close> joints.\<close>

definition triangulate ::
  "(('c \<times> 'pt) list \<Rightarrow> 'p) \<Rightarrow> 'c list \<Rightarrow> 'pt keypoints2d option list \<Rightarrow> nat \<Rightarrow> nat
     \<Rightarrow> 'p keypoints3d" where
  "triangulate solve cams views n_frame n_joint =
     (let grid = map (\<lambda>f. map (triangulate_joint solve cams views f) [0 ..< n_joint])
                   [0 ..< n_frame]
      in \<lparr>kps3d = grid, mask3d = map (map (\<lambda>entry. entry \<noteq> None)) grid\<rparr>)"

text \<open>Three views of one frame with two joints: the second view is absent, the third
  sees only the first joint.\<close>

definition sample_views :: "(int \<times> int) keypoints2d option list" where
  "sample_views =
     [Some \<lparr>points = (\<lambda>f j. (1, 2)), valid = (\<lambda>f j. True)\<rparr>,
      None,
      Some \<lparr>points = (\<lambda>f j. (3, 4)), valid = (\<lambda>f j. j = 0)\<rparr>]"


section \<open>The Calibration Normalizer of the specification\<close>

text \<open>
  The cameras are loaded by \<^verbatim>\<open>get_all_color_kinect_parameter_from_smc\<close> of
  \<^verbatim>\<open>xrmocap.io.camera\<close>, whose code is not part of \<^verbatim>\<open>tools/process_smc.py\<close>. The
  definitions of this section follow sections 3 and 4.1 of the specification instead.
\<close>

text \<open>Modelled from the spec: the orientation of one camera by the Calibration
  Normalizer, missing from the source: an extrinsic "stored as world-to-camera
  (requiring inversion)" is inverted, one stored camera-to-world is kept.\<close>

definition to_camera_to_world :: "'a env \<Rightarrow> 'a camera_parameter \<Rightarrow> 'a camera_parameter" where
  "to_camera_to_world env c = (if world2cam c then inverse_extrinsic env c else c)"

text \<open>Modelled from the spec: the Calibration Normalizer, missing from the source: "given
  the raw per-camera calibration from the Capture Container, produce one
  CameraParameter per camera with ground-plane alignment applied and extrinsic
  oriented camera-to-world"; it "signals a configuration error if the container
  reports zero cameras". The ground-plane alignment is numerical and the
  specification gives no formula for it: \<open>raw\<close> is the calibration as it enters the
  orientation, one record per camera.\<close>

definition calibration_normalizer ::
  "'a env \<Rightarrow> 'a camera_parameter list \<Rightarrow> error + 'a camera_parameter list" where
  "calibration_normalizer env raw =
     (if raw = [] then Inl (CollaboratorError ''the container reports zero cameras'')
      else Inr (map (to_camera_to_world env) raw))"

text \<open>The sample capture with two cameras, the second stored world-to-camera, loaded by
  the Calibration Normalizer; the two array operations are stand-ins on numbers.\<close>

definition raw_cam :: "nat camera_parameter" where
  "raw_cam = \<lparr>intrinsic = 0, extrinsic_r = 5, extrinsic_t = 6, world2cam = True\<rparr>"

definition normalizing_env :: "nat env" where
  "normalizing_env =
     sample_env\<lparr>linalg_inv := (\<lambda>r. r + 10), neg_dot := (\<lambda>r t. r + t),
       get_all_color_kinect_parameter_from_smc :=
         calibration_normalizer
           (sample_env\<lparr>linalg_inv := (\<lambda>r. r + 10), neg_dot := (\<lambda>r t. r + t)\<rparr>)
           [sample_cam, raw_cam]\<rparr>"


section \<open>The batch call of the specification\<close>

text \<open>
  Under an on-disk strategy the script calls the estimator's \<^verbatim>\<open>run\<close> once
  (\<^verbatim>\<open>xrmocap.core.estimation\<close>), whose code is not part of \<^verbatim>\<open>tools/process_smc.py\<close>.
  The definitions of this section follow section 4.3 of the specification instead.
  \<open>imread\<close> reads the frame files of one view, in the order of the list, into the
  array of the view.
\<close>

text \<open>Modelled from the spec: the 2D estimation of the views inside the batch call,
  missing from the source: "one Keypoints2D (or absence) per view in camera-index
  order"; an exception of the 2D estimator ends it.\<close>

fun estimate_views :: "'a env \<Rightarrow> 'a list \<Rightarrow> error + 'a option list" where
  "estimate_views env [] = Inr []"
| "estimate_views env (x # xs) =
     (case estimate_keypoints2d env x of
        Inl e \<Rightarrow> Inl e
      | Inr l \<Rightarrow> (case estimate_views env xs of Inl e \<Rightarrow> Inl e | Inr ls \<Rightarrow> Inr (l @ ls)))"

text \<open>Modelled from the spec: the batch call \<^verbatim>\<open>run\<close> of the estimator, missing from the
  source: "the on-disk strategies delegate the entire estimate, triangulate, fit
  sequence to the external estimator in one shot", the call "receiving all per-view
  Keypoints2D together with the fused 3D result and body-model parameters".\<close>

definition batch_run ::
  "'a env \<Rightarrow> (string list \<Rightarrow> 'a) \<Rightarrow> 'a camera_parameter list \<Rightarrow> string list list
     \<Rightarrow> error + ('a option list \<times> 'a option \<times> 'a smpl_data option)" where
  "batch_run env imread cam_param img_paths =
     (case estimate_views env (map (\<lambda>ps. expand_dims0 env (imread ps)) img_paths) of
        Inl e \<Rightarrow> Inl e
      | Inr keypoints2d_list \<Rightarrow>
          (case estimate_keypoints3d env cam_param keypoints2d_list of
             Inl e \<Rightarrow> Inl e
           | Inr keypoints3d \<Rightarrow>
               (case estimate_smpl env keypoints3d of
                  Inl e \<Rightarrow> Inl e
                | Inr smpl_data \<Rightarrow> Inr (keypoints2d_list, keypoints3d, smpl_data))))"

text \<open>The sample capture with the batch call of the specification. A frame file of the
  sample is read back as the array the capture holds for its view (the two digits
  after \<^verbatim>\<open>out/session07_temp_frames/view_\<close>).\<close>

definition sample_imread :: "string list \<Rightarrow> nat" where
  "sample_imread ps =
     (case ps of [] \<Rightarrow> 0 | p # _ \<Rightarrow> 100 + nat_of_str (take 2 (drop 31 p)))"

definition batch_env :: "nat env" where
  "batch_env = sample_env\<lparr>run := batch_run sample_env sample_imread\<rparr>"


section \<open>Basic facts\<close>

subsection \<open>Sequencing\<close>

lemma and_then_Inl: "snd m = Inl e \<Longrightarrow> and_then m f = (fst m, Inl e)"
  by (simp add: and_then_def)

lemma and_then_Inr: "snd m = Inr x \<Longrightarrow> and_then m f = (fst m @ fst (f x), snd (f x))"
  by (simp add: and_then_def)

lemma snd_and_then_Inr:
  "snd (and_then m f) = Inr y \<longleftrightarrow> (\<exists>x. snd m = Inr x \<and> snd (f x) = Inr y)"
  by (cases "snd m") (simp_all add: and_then_def)

lemma in_trace_and_then:
  "e \<in> set (fst (and_then m f)) \<longleftrightarrow>
     e \<in> set (fst m) \<or> (\<exists>x. snd m = Inr x \<and> e \<in> set (fst (f x)))"
  by (cases "snd m") (auto simp add: and_then_def)

lemma fst_and_then:
  "fst (and_then m f) = fst m @ (case snd m of Inl e \<Rightarrow> [] | Inr x \<Rightarrow> fst (f x))"
  by (cases "snd m") (simp_all add: and_then_def)

lemma done_with_simps [simp]: "fst (done_with x) = []" "snd (done_with x) = Inr x"
  by (simp_all add: done_with_def)

lemma raise_err_simps [simp]: "fst (raise_err e) = []" "snd (raise_err e) = Inl e"
  by (simp_all add: raise_err_def)

lemma call_simps [simp]: "fst (call ev r) = [ev]" "snd (call ev r) = r"
  by (simp_all add: call_def)

lemma fst_perform [simp]: "fst (perform env ev) = [ev]"
  by (simp add: perform_def)

lemma snd_perform_Inr [simp]: "snd (perform env ev) = Inr u \<longleftrightarrow> effect env ev = None"
  by (simp add: perform_def split: option.splits)

lemma completes_iff: "completes m \<longleftrightarrow> (\<exists>r. snd m = Inr r)"
  by (cases "snd m") (simp_all add: completes_def)

lemma trace_and_then_sat:
  assumes "\<forall>e\<in>set (fst m). P e" and "\<And>x. snd m = Inr x \<Longrightarrow> \<forall>e\<in>set (fst (f x)). P e"
  shows "\<forall>e\<in>set (fst (and_then m f)). P e"
  using assms by (auto simp add: in_trace_and_then)

lemma trace_for_each_sat:
  assumes "\<And>i s. i \<in> set xs \<Longrightarrow> \<forall>e\<in>set (fst (body i s)). P e"
  shows "\<forall>e\<in>set (fst (for_each body xs s)). P e"
  using assms
proof (induction xs arbitrary: s)
  case Nil
  then show ?case by simp
next
  case (Cons x xs)
  have head: "\<forall>e\<in>set (fst (body x s)). P e"
    by (rule Cons.prems) simp
  have rest: "\<forall>e\<in>set (fst (for_each body xs s')). P e" for s'
    by (rule Cons.IH, rule Cons.prems) simp
  show ?case
    unfolding for_each.simps
    by (rule trace_and_then_sat) (use head rest in blast)+
qed

subsection \<open>The calls each part of the run can make\<close>

lemma load_inputs_events:
  "e \<in> set (fst (load_inputs env a)) \<Longrightarrow>
     e = Mkdir (output_dir a) \<or> (\<exists>p. e = SetupLogger p) \<or> e = SMCReader (smc_path a)
     \<or> e = BuildEstimator (estimator_config a) \<or> e = LoadCameraParameters"
  by (auto simp add: load_inputs_def in_trace_and_then check_output_path_def setup_logging_def
        check_input_path_def Let_def split: if_splits)

lemma acquire_view_events:
  "e \<in> set (fst (acquire_view env a k st)) \<Longrightarrow>
     e = GetKinectColor k \<or> (\<exists>x. e = EstimateKeypoints2d x)
     \<or> (\<exists>x. e = ArrayToImages x (view_temp_dir a k))"
  by (cases st) (auto simp add: acquire_view_def in_trace_and_then Let_def split: if_splits)

lemma acquire_events:
  "\<forall>e\<in>set (fst (acquire env a)).
     (\<exists>k. e = GetKinectColor k) \<or> (\<exists>x. e = EstimateKeypoints2d x)
     \<or> (\<exists>x d. e = ArrayToImages x d)"
  unfolding acquire_def
  by (rule trace_for_each_sat) (auto dest: acquire_view_events)

lemma estimate_events:
  "e \<in> set (fst (estimate env a cams st)) \<Longrightarrow>
     (\<exists>p. e = EstimatorRun cams p) \<or> (\<exists>k. e = EstimateKeypoints3d cams k)
     \<or> (\<exists>k. e = EstimateSmpl k)"
  by (cases st) (auto simp add: estimate_def in_trace_and_then split: if_splits)

lemma reconstruct_events:
  "e \<in> set (fst (reconstruct env a cams)) \<Longrightarrow>
     e = PrepareOutputPath (frame_temp_dir a)
     \<or> (\<exists>k. e = GetKinectColor k) \<or> (\<exists>x. e = EstimateKeypoints2d x)
     \<or> (\<exists>x d. e = ArrayToImages x d)
     \<or> (\<exists>p. e = EstimatorRun cams p) \<or> (\<exists>k. e = EstimateKeypoints3d cams k)
     \<or> (\<exists>k. e = EstimateSmpl k)"
  using acquire_events [of env a]
  by (auto simp add: reconstruct_def in_trace_and_then prepare_frames_def
        dest!: estimate_events split: if_splits)

lemma write_keypoints2d_events:
  "e \<in> set (fst (write_keypoints2d env a entry u)) \<Longrightarrow>
     (\<exists>k p. e = DumpKeypoints2d k p) \<or> (\<exists>w. e = LogWarning w)"
  by (cases entry) (auto simp add: write_keypoints2d_def split: option.splits)

lemma write_results_events:
  "e \<in> set (fst (write_results env a res)) \<Longrightarrow>
     (\<exists>k p. e = DumpKeypoints2d k p) \<or> (\<exists>w. e = LogWarning w)
     \<or> (\<exists>k. e = DumpKeypoints3d k (keypoints3d_path a)) \<or> (\<exists>s p. e = DumpSmpl s p)"
proof -
  have loop: "\<forall>e\<in>set (fst (for_each (write_keypoints2d env a) xs ())).
      (\<exists>k p. e = DumpKeypoints2d k p) \<or> (\<exists>w. e = LogWarning w)" for xs
    by (rule trace_for_each_sat) (auto dest: write_keypoints2d_events)
  assume "e \<in> set (fst (write_results env a res))"
  then show ?thesis
    using loop
    by (cases res) (auto simp add: write_results_def in_trace_and_then Let_def
          split: option.splits)
qed

lemma process_events_no_rmtree: "Rmtree p \<notin> set (fst (process env a))"
  by (auto simp add: process_def in_trace_and_then
        dest: load_inputs_events reconstruct_events write_results_events)

lemma visualize_results_no_rmtree:
  "Rmtree p \<notin> set (fst (visualize_results env a cams k3 s t))"
proof -
  have loop: "\<forall>e\<in>set (fst (for_each (visualize_projected env a) xs ())). e \<noteq> Rmtree p" for xs
    by (rule trace_for_each_sat) (auto simp add: visualize_projected_def in_trace_and_then)
  show ?thesis
    using loop
    by (auto simp add: visualize_results_def visualize_keypoints3d_def visualize_smpl_def
          in_trace_and_then Let_def split: option.splits if_splits)
qed

lemma set_range_step:
  "0 < s \<Longrightarrow> set (range_step i n s) = {v. i \<le> v \<and> v < n \<and> s dvd (v - i)}"
proof (induction i n s rule: range_step.induct)
  case (1 i n s)
  show ?case
  proof (cases "i < n")
    case False
    then show ?thesis using 1 by (subst range_step.simps) auto
  next
    case True
    have IH: "set (range_step (i + s) n s) = {v. i + s \<le> v \<and> v < n \<and> s dvd (v - (i + s))}"
      using 1 True by simp
    have "{v. i \<le> v \<and> v < n \<and> s dvd (v - i)}
          = insert i {v. i + s \<le> v \<and> v < n \<and> s dvd (v - (i + s))}" (is "?L = ?R")
    proof (rule set_eqI)
      fix v
      show "v \<in> ?L \<longleftrightarrow> v \<in> ?R"
      proof
        assume "v \<in> ?L"
        then have v: "i \<le> v" "v < n" "s dvd (v - i)" by auto
        show "v \<in> ?R"
        proof (cases "v = i")
          case True then show ?thesis by simp
        next
          case False
          then have "0 < v - i" using v by simp
          then have "s \<le> v - i" using v(3) by (simp add: dvd_imp_le)
          then have "i + s \<le> v" using v(1) by arith
          moreover have "s dvd (v - (i + s))"
            using dvd_diff_nat [OF v(3) dvd_refl] by (simp add: diff_diff_eq)
          ultimately show ?thesis using v by simp
        qed
      next
        assume "v \<in> ?R"
        then consider "v = i" | "i + s \<le> v" "v < n" "s dvd (v - (i + s))" by auto
        then show "v \<in> ?L"
        proof cases
          case 1 then show ?thesis using True by simp
        next
          case 2
          have "v - i = (v - (i + s)) + s" using 2(1) by simp
          then have "s dvd (v - i)" using 2(3) by simp
          then show ?thesis using 2 by simp
        qed
      qed
    qed
    then show ?thesis
      using True 1 IH by (subst range_step.simps) simp
  qed
qed

lemma for_each_completes_member:
  "snd (for_each body xs s) = Inr s' \<Longrightarrow> i \<in> set xs \<Longrightarrow>
     \<exists>s0 s1. snd (body i s0) = Inr s1 \<and> set (fst (body i s0)) \<subseteq> set (fst (for_each body xs s))"
proof (induction xs arbitrary: s)
  case Nil
  then show ?case by simp
next
  case (Cons x xs)
  from Cons.prems(1) obtain s1 where
    h: "snd (body x s) = Inr s1" and t: "snd (for_each body xs s1) = Inr s'"
    by (auto simp add: snd_and_then_Inr)
  have tr: "fst (for_each body (x # xs) s) = fst (body x s) @ fst (for_each body xs s1)"
    using h by (simp add: and_then_Inr)
  show ?case
  proof (cases "i = x")
    case True
    then show ?thesis using h tr by (intro exI [of _ s] exI [of _ s1]) auto
  next
    case False
    then have "i \<in> set xs" using Cons.prems(2) by simp
    from Cons.IH [OF t this] obtain s0 s2 where
      "snd (body i s0) = Inr s2" "set (fst (body i s0)) \<subseteq> set (fst (for_each body xs s1))"
      by blast
    then show ?thesis using tr by (intro exI [of _ s0] exI [of _ s2]) auto
  qed
qed


lemma write_results_Inr:
  "snd (write_results env a (kps, k3, s)) = Inr t \<Longrightarrow>
     k3 \<noteq> None \<and> s \<noteq> None \<and> t = smpl_type_of s"
  by (auto simp add: write_results_def snd_and_then_Inr Let_def split: option.splits)

lemma process_Inr:
  "snd (process env a) = Inr (c, k3, s, t) \<Longrightarrow>
     get_all_color_kinect_parameter_from_smc env = Inr c \<and> k3 \<noteq> None \<and> s \<noteq> None
     \<and> t = smpl_type_of s"
  by (auto simp add: process_def snd_and_then_Inr load_inputs_def dest: write_results_Inr)

lemma process_events:
  "e \<in> set (fst (process env a)) \<Longrightarrow>
     e = Mkdir (output_dir a) \<or> (\<exists>p. e = SetupLogger p) \<or> e = SMCReader (smc_path a)
     \<or> e = BuildEstimator (estimator_config a) \<or> e = LoadCameraParameters
     \<or> e = PrepareOutputPath (frame_temp_dir a)
     \<or> (\<exists>k. e = GetKinectColor k) \<or> (\<exists>x. e = EstimateKeypoints2d x)
     \<or> (\<exists>x d. e = ArrayToImages x d)
     \<or> (\<exists>p. e = EstimatorRun (projr (get_all_color_kinect_parameter_from_smc env)) p)
     \<or> (\<exists>k. e = EstimateKeypoints3d (projr (get_all_color_kinect_parameter_from_smc env)) k)
     \<or> (\<exists>k. e = EstimateSmpl k)
     \<or> (\<exists>k p. e = DumpKeypoints2d k p) \<or> (\<exists>w. e = LogWarning w)
     \<or> (\<exists>k. e = DumpKeypoints3d k (keypoints3d_path a)) \<or> (\<exists>s p. e = DumpSmpl s p)"
proof -
  assume "e \<in> set (fst (process env a))"
  then consider "e \<in> set (fst (load_inputs env a))"
    | c where "snd (load_inputs env a) = Inr c" "e \<in> set (fst (reconstruct env a c))"
    | res where "e \<in> set (fst (write_results env a res))"
    by (auto simp add: process_def in_trace_and_then)
  then show ?thesis
  proof cases
    case 1
    then show ?thesis using load_inputs_events [of e env a] by blast
  next
    case 2
    have "get_all_color_kinect_parameter_from_smc env = Inr c"
      using 2(1) by (auto simp add: load_inputs_def snd_and_then_Inr)
    then show ?thesis using reconstruct_events [OF 2(2)] by auto
  next
    case 3
    then show ?thesis using write_results_events [of e env a res] by blast
  qed
qed

lemma visualize_projected_events:
  "e \<in> set (fst (visualize_projected env a v u)) \<Longrightarrow>
     e = GetKinectColor v \<or> (\<exists>x. e = VisualizeKp2d v x (projected_path a v))"
  by (auto simp add: visualize_projected_def in_trace_and_then)

lemma visualize_results_kp2d:
  assumes "VisualizeKp2d v x p \<in> set (fst (visualize_results env a cams k3 s t))"
  shows "visualize a \<and> v \<in> set (range_step 0 (projector_n_view env) 3)
         \<and> p = projected_path a v"
proof -
  have loop: "\<forall>e\<in>set (fst (for_each (visualize_projected env a) xs ())).
      (\<exists>i\<in>set xs. e = GetKinectColor i \<or> (\<exists>x. e = VisualizeKp2d i x (projected_path a i)))"
    for xs
    by (rule trace_for_each_sat) (auto dest: visualize_projected_events)
  show ?thesis
    using assms loop [of "range_step 0 (projector_n_view env) 3"]
    by (auto simp add: visualize_results_def visualize_keypoints3d_def visualize_smpl_def
          in_trace_and_then Let_def split: option.splits if_splits)
qed

lemma visualize_projected_Inr:
  "snd (visualize_projected env a v u) = Inr u' \<Longrightarrow>
     \<exists>x. VisualizeKp2d v x (projected_path a v) \<in> set (fst (visualize_projected env a v u))"
  by (auto simp add: visualize_projected_def snd_and_then_Inr in_trace_and_then)

lemma visualize_results_completes_kp2d:
  assumes "snd (visualize_results env a cams (Some k3) s t) = Inr u" and "visualize a"
    and "v \<in> set (range_step 0 (projector_n_view env) 3)"
  shows "Project k3 \<in> set (fst (visualize_results env a cams (Some k3) s t))
         \<and> (\<exists>x. VisualizeKp2d v x (projected_path a v)
                  \<in> set (fst (visualize_results env a cams (Some k3) s t)))"
proof -
  let ?loop = "for_each (visualize_projected env a) (range_step 0 (projector_n_view env) 3) ()"
  from assms(1,2) have ok: "effect env GetProjector = None"
    "effect env (VisualizeKp3d k3
       (os_path_join (output_dir a) (smc_name_of a @ ''_keypoints3d.mp4''))) = None"
    "effect env (Project k3) = None"
    and nz: "projector_n_view env \<noteq> 0"
    and loop: "snd ?loop = Inr ()"
    by (auto simp add: visualize_results_def visualize_keypoints3d_def snd_and_then_Inr Let_def
          split: if_splits)
  from for_each_completes_member [OF loop assms(3)] obtain s0 s1 where
    "snd (visualize_projected env a v s0) = Inr s1"
    "set (fst (visualize_projected env a v s0)) \<subseteq> set (fst ?loop)"
    by blast
  then obtain x where "VisualizeKp2d v x (projected_path a v) \<in> set (fst ?loop)"
    using visualize_projected_Inr [of env a v s0 s1] by blast
  then show ?thesis
    using ok nz assms(2)
    by (auto simp add: visualize_results_def visualize_keypoints3d_def in_trace_and_then
          Let_def)
qed


subsection \<open>A run that stops while loading its inputs\<close>

lemma load_inputs_bad_input:
  assumes "check_path_existence env (smc_path a) ''file'' \<noteq> FileExist"
  shows "\<not> completes (load_inputs env a)"
    and "set (fst (load_inputs env a))
          \<subseteq> {Mkdir (output_dir a),
              SetupLogger (if disable_log_file a then None else Some (log_path env a))}"
  using assms
  by (auto simp add: load_inputs_def completes_iff snd_and_then_Inr in_trace_and_then
        check_output_path_def setup_logging_def check_input_path_def Let_def split: if_splits)

lemma main_load_inputs_fails:
  "\<not> completes (load_inputs env a) \<Longrightarrow>
     main env a = (fst (load_inputs env a), Inl (projl (snd (load_inputs env a))))"
  by (cases "snd (load_inputs env a)")
     (simp_all add: main_def process_def and_then_Inl completes_def)


subsection \<open>Distinct indices give distinct names\<close>

lemma digit_val_digit_char: "d < 10 \<Longrightarrow> digit_val (digit_char d) = d"
proof -
  assume "d < 10"
  then have "d = 0 \<or> d = 1 \<or> d = 2 \<or> d = 3 \<or> d = 4 \<or> d = 5 \<or> d = 6 \<or> d = 7 \<or> d = 8 \<or> d = 9"
    by arith
  then show ?thesis
    by (elim disjE) (simp_all add: digit_val_def digit_char_def)
qed

lemma nat_of_str_snoc: "nat_of_str (s @ [c]) = 10 * nat_of_str s + digit_val c"
  by (simp add: nat_of_str_def)

lemma nat_of_str_of_nat: "nat_of_str (str_of_nat n) = n"
proof (induction n rule: str_of_nat.induct)
  case (1 n)
  show ?case
  proof (cases "n < 10")
    case True
    then show ?thesis
      by (subst str_of_nat.simps) (simp add: nat_of_str_def digit_val_digit_char)
  next
    case False
    then have "nat_of_str (str_of_nat (n div 10)) = n div 10"
      using 1 by simp
    then show ?thesis
      using False
      by (subst str_of_nat.simps) (simp add: nat_of_str_snoc digit_val_digit_char)
  qed
qed

lemma nat_of_str_zeros: "nat_of_str (replicate k CHR ''0'' @ s) = nat_of_str s"
proof -
  have "foldl (\<lambda>acc c. 10 * acc + digit_val c) 0 (replicate k CHR ''0'') = 0"
    by (induction k) (simp_all add: digit_val_def)
  then show ?thesis
    by (simp add: nat_of_str_def)
qed

lemma nat_of_str_fmt_02d: "nat_of_str (fmt_02d n) = n"
  by (simp add: fmt_02d_def Let_def nat_of_str_zeros nat_of_str_of_nat)

lemma fmt_02d_inject: "fmt_02d i = fmt_02d j \<longleftrightarrow> i = j"
  using nat_of_str_fmt_02d by metis

lemma os_path_join_inject:
  assumes "b = [] \<or> hd b \<noteq> CHR ''/''" and "b' = [] \<or> hd b' \<noteq> CHR ''/''"
  shows "os_path_join d b = os_path_join d b' \<longleftrightarrow> b = b'"
  using assms by (auto simp add: os_path_join_def)

lemma view_temp_dir_inject: "view_temp_dir a i = view_temp_dir a j \<longleftrightarrow> i = j"
  by (simp add: view_temp_dir_def os_path_join_inject fmt_02d_inject)

lemma no_slash_rsplit_last: "CHR ''/'' \<notin> set (rsplit_last CHR ''/'' s)"
  by (auto simp add: rsplit_last_def dest: set_takeWhileD)

lemma set_rsplit_first: "set (rsplit_first c s) \<subseteq> set s"
proof -
  have "set (tl (dropWhile (\<lambda>x. x \<noteq> c) (rev s))) \<subseteq> set s"
    by (metis list.set_sel(2) set_dropWhileD set_rev subsetI tl_Nil)
  then show ?thesis
    by (auto simp add: rsplit_first_def)
qed

lemma no_slash_smc_name: "CHR ''/'' \<notin> set (smc_name_of a)"
  using set_rsplit_first [of "CHR ''.''" "file_name_of a"] no_slash_rsplit_last
  by (auto simp add: smc_name_of_def file_name_of_def)

lemma smc_name_prefix_no_slash: "hd (smc_name_of a @ CHR ''_'' # rest) \<noteq> CHR ''/''"
  using no_slash_smc_name [of a] by (cases "smc_name_of a") auto

lemma keypoints2d_path_inject: "keypoints2d_path a i = keypoints2d_path a j \<longleftrightarrow> i = j"
  using smc_name_prefix_no_slash [of a]
  by (simp add: keypoints2d_path_def os_path_join_inject fmt_02d_inject)


subsection \<open>The loop that writes the 2D keypoints\<close>

lemma for_each_trace_origin:
  "e \<in> set (fst (for_each body xs s)) \<Longrightarrow> \<exists>i\<in>set xs. \<exists>s0. e \<in> set (fst (body i s0))"
proof -
  have "\<forall>e\<in>set (fst (for_each body xs s)). \<exists>i\<in>set xs. \<exists>s0. e \<in> set (fst (body i s0))"
    by (rule trace_for_each_sat) blast
  then show "e \<in> set (fst (for_each body xs s)) \<Longrightarrow> ?thesis"
    by blast
qed

lemma write_loop_events:
  assumes "e \<in> set (fst (for_each (write_keypoints2d env a) (enumerate 0 kps) ()))"
  shows "\<exists>i<length kps.
           (kps ! i = None \<and> e = LogWarning
              (''No keypoints2d has been detected in view'' @ fmt_02d i @ ''.''))
           \<or> (\<exists>k. kps ! i = Some k \<and> e = DumpKeypoints2d k (keypoints2d_path a i))"
proof -
  from for_each_trace_origin [OF assms] obtain i x u where
    m: "(i, x) \<in> set (enumerate 0 kps)" and e: "e \<in> set (fst (write_keypoints2d env a (i, x) u))"
    by auto
  from m have "i < length kps" "kps ! i = x"
    by (simp_all add: in_set_enumerate_eq)
  then show ?thesis
    using e by (cases x) (auto simp add: write_keypoints2d_def)
qed

lemma write_loop_completes_events:
  assumes "snd (for_each (write_keypoints2d env a) (enumerate 0 kps) ()) = Inr u"
    and "i < length kps"
  shows "case kps ! i of
           None \<Rightarrow> LogWarning (''No keypoints2d has been detected in view'' @ fmt_02d i @ ''.'')
                    \<in> set (fst (for_each (write_keypoints2d env a) (enumerate 0 kps) ()))
         | Some k \<Rightarrow> DumpKeypoints2d k (keypoints2d_path a i)
                    \<in> set (fst (for_each (write_keypoints2d env a) (enumerate 0 kps) ()))"
proof -
  have "(i, kps ! i) \<in> set (enumerate 0 kps)"
    using assms(2) by (simp add: in_set_enumerate_eq)
  from for_each_completes_member [OF assms(1) this] obtain s0 s1 where
    "set (fst (write_keypoints2d env a (i, kps ! i) s0))
       \<subseteq> set (fst (for_each (write_keypoints2d env a) (enumerate 0 kps) ()))"
    by blast
  then show ?thesis
    by (cases "kps ! i") (auto simp add: write_keypoints2d_def)
qed

lemma write_loop_completes:
  "(\<forall>ev. effect env ev = None) \<Longrightarrow> snd (for_each (write_keypoints2d env a) xs ()) = Inr ()"
proof (induction xs)
  case Nil
  then show ?case by simp
next
  case (Cons x xs)
  have "snd (write_keypoints2d env a x ()) = Inr ()"
    using Cons.prems
    by (cases x) (auto simp add: write_keypoints2d_def split: option.splits)
  then show ?case
    using Cons by (simp add: snd_and_then_Inr)
qed

lemma write_results_dump2d:
  "DumpKeypoints2d k p \<in> set (fst (write_results env a (kps, k3, s))) \<longleftrightarrow>
   DumpKeypoints2d k p \<in> set (fst (for_each (write_keypoints2d env a) (enumerate 0 kps) ()))"
  by (auto simp add: write_results_def in_trace_and_then Let_def split: option.splits)

lemma write_results_warning:
  "LogWarning w \<in> set (fst (write_results env a (kps, k3, s))) \<longleftrightarrow>
   LogWarning w \<in> set (fst (for_each (write_keypoints2d env a) (enumerate 0 kps) ()))"
  by (auto simp add: write_results_def in_trace_and_then Let_def split: option.splits)

lemma write_results_dump3d:
  "DumpKeypoints3d k p \<in> set (fst (write_results env a (kps, k3, s))) \<Longrightarrow>
     k3 = Some k \<and> p = keypoints3d_path a"
  by (auto simp add: write_results_def in_trace_and_then Let_def
        dest!: write_loop_events split: option.splits)

lemma write_results_dump_smpl:
  "DumpSmpl d p \<in> set (fst (write_results env a (kps, k3, s))) \<Longrightarrow>
     s = Some d \<and> p = smpl_path a (smpl_type_of (Some d))"
  by (auto simp add: write_results_def in_trace_and_then Let_def
        dest!: write_loop_events split: option.splits)

lemma write_results_completes_dumps:
  assumes "snd (write_results env a (kps, k3, s)) = Inr t"
  shows "\<exists>k d. k3 = Some k \<and> s = Some d
     \<and> snd (for_each (write_keypoints2d env a) (enumerate 0 kps) ()) = Inr ()
     \<and> DumpKeypoints3d k (keypoints3d_path a) \<in> set (fst (write_results env a (kps, k3, s)))
     \<and> DumpSmpl d (smpl_path a (smpl_type_of (Some d)))
         \<in> set (fst (write_results env a (kps, k3, s)))"
  using assms
  by (auto simp add: write_results_def in_trace_and_then snd_and_then_Inr Let_def
        split: option.splits)


subsection \<open>Where a call of the whole run comes from\<close>

lemma main_trace_cases:
  assumes "e \<in> set (fst (main env a))"
  shows "e \<in> set (fst (load_inputs env a))
     \<or> (\<exists>c. snd (load_inputs env a) = Inr c
          \<and> (e \<in> set (fst (reconstruct env a c))
             \<or> (\<exists>res. snd (reconstruct env a c) = Inr res
                  \<and> (e \<in> set (fst (write_results env a res))
                     \<or> (\<exists>t. snd (write_results env a res) = Inr t
                          \<and> (e \<in> set (fst (cleanup env a))
                             \<or> e \<in> set (fst (visualize_results env a c
                                                (fst (snd res)) (snd (snd res)) t))))))))"
  using assms
  by (auto simp add: main_def process_def in_trace_and_then snd_and_then_Inr)

lemma main_trace_write_results:
  assumes "snd (load_inputs env a) = Inr c" and "snd (reconstruct env a c) = Inr res"
    and "e \<in> set (fst (write_results env a res))"
  shows "e \<in> set (fst (main env a))"
  using assms
  by (cases res) (auto simp add: main_def process_def in_trace_and_then snd_and_then_Inr)

lemma main_trace_reconstruct:
  assumes "snd (load_inputs env a) = Inr c" and "e \<in> set (fst (reconstruct env a c))"
  shows "e \<in> set (fst (main env a))"
  using assms
  by (auto simp add: main_def process_def in_trace_and_then snd_and_then_Inr)

lemma process_completes_parts:
  assumes "completes (process env a)"
  shows "\<exists>c res t. snd (load_inputs env a) = Inr c \<and> snd (reconstruct env a c) = Inr res
           \<and> snd (write_results env a res) = Inr t"
  using assms
  by (auto simp add: completes_iff process_def snd_and_then_Inr)

lemma visualize_results_events:
  assumes "e \<in> set (fst (visualize_results env a cams k3 s t))"
  shows "e = GetProjector \<or> (\<exists>k p. e = VisualizeKp3d k p) \<or> (\<exists>k. e = Project k)
     \<or> (\<exists>v. e = GetKinectColor v) \<or> (\<exists>v x p. e = VisualizeKp2d v x p)
     \<or> (\<exists>d c x p. e = VisualizeSmplCalibration d c x p)"
proof -
  have loop: "\<forall>e\<in>set (fst (for_each (visualize_projected env a) xs ())).
      (\<exists>v. e = GetKinectColor v) \<or> (\<exists>v x p. e = VisualizeKp2d v x p)" for xs
    by (rule trace_for_each_sat) (auto dest: visualize_projected_events)
  show ?thesis
    using assms loop [of "range_step 0 (projector_n_view env) 3"]
    by (auto simp add: visualize_results_def visualize_keypoints3d_def visualize_smpl_def
          in_trace_and_then Let_def split: option.splits if_splits)
qed

lemma cleanup_events: "e \<in> set (fst (cleanup env a)) \<Longrightarrow> e = Rmtree (frame_temp_dir a)"
  by (auto simp add: cleanup_def split: if_splits)

lemma main_dump2d:
  assumes "DumpKeypoints2d k p \<in> set (fst (main env a))"
  shows "\<exists>c res. snd (load_inputs env a) = Inr c \<and> snd (reconstruct env a c) = Inr res
           \<and> DumpKeypoints2d k p \<in> set (fst (write_results env a res))"
  using main_trace_cases [OF assms]
  by (auto dest: load_inputs_events reconstruct_events cleanup_events visualize_results_events)

lemma main_dump3d:
  assumes "DumpKeypoints3d k p \<in> set (fst (main env a))"
  shows "\<exists>c res. snd (load_inputs env a) = Inr c \<and> snd (reconstruct env a c) = Inr res
           \<and> DumpKeypoints3d k p \<in> set (fst (write_results env a res))"
  using main_trace_cases [OF assms]
  by (auto dest: load_inputs_events reconstruct_events cleanup_events visualize_results_events)

lemma main_dump_smpl:
  assumes "DumpSmpl d p \<in> set (fst (main env a))"
  shows "\<exists>c res. snd (load_inputs env a) = Inr c \<and> snd (reconstruct env a c) = Inr res
           \<and> DumpSmpl d p \<in> set (fst (write_results env a res))"
  using main_trace_cases [OF assms]
  by (auto dest: load_inputs_events reconstruct_events cleanup_events visualize_results_events)


subsection \<open>After the estimator has answered\<close>

lemma reconstruct_in_memory_triangulates:
  assumes "frame_file a = ''none''" and "snd (reconstruct env a c) = Inr (kps, k3, s)"
  shows "EstimateKeypoints3d c kps \<in> set (fst (reconstruct env a c))"
  using assms
  by (auto simp add: reconstruct_def estimate_def prepare_frames_def snd_and_then_Inr
        in_trace_and_then)

lemma write_results_completes:
  assumes "\<forall>ev. effect env ev = None"
  shows "snd (write_results env a (kps, Some p3, Some d)) = Inr (smpl_type_of (Some d))"
  using assms write_loop_completes [of env a "enumerate 0 kps"]
  by (simp add: write_results_def snd_and_then_Inr Let_def)


subsection \<open>The loop over the views\<close>

lemma acquire_loop_on_disk:
  assumes "frame_file a \<noteq> ''none''"
    and "snd (for_each (acquire_view env a) ks (kps, imgs)) = Inr (kps', imgs')"
  shows "kps' = kps
     \<and> imgs' = imgs @ map (\<lambda>k. sort (glob env (os_path_join (view_temp_dir a k) ''*.png''))) ks"
  using assms
proof (induction ks arbitrary: kps imgs)
  case Nil
  then show ?case by simp
next
  case (Cons k ks)
  from Cons.prems(2) obtain st where
    h: "snd (acquire_view env a k (kps, imgs)) = Inr st"
    and t: "snd (for_each (acquire_view env a) ks st) = Inr (kps', imgs')"
    by (auto simp add: snd_and_then_Inr)
  from h Cons.prems(1) have st:
    "st = (kps, imgs @ [sort (glob env (os_path_join (view_temp_dir a k) ''*.png''))])"
    by (auto simp add: acquire_view_def snd_and_then_Inr Let_def split: if_splits)
  from Cons.IH [OF Cons.prems(1) t [unfolded st]] show ?case
    by simp
qed

lemma reconstruct_estimator_run:
  assumes "EstimatorRun c paths \<in> set (fst (reconstruct env a cams))"
  shows "frame_file a \<noteq> ''none'' \<and> c = cams
     \<and> paths = map (\<lambda>k. sort (glob env (os_path_join (view_temp_dir a k) ''*.png'')))
                 [0 ..< num_kinects env]"
proof -
  from assms acquire_events [of env a] obtain kps imgs where
    ac: "snd (acquire env a) = Inr (kps, imgs)"
    and es: "EstimatorRun c paths \<in> set (fst (estimate env a cams (kps, imgs)))"
    by (auto simp add: reconstruct_def in_trace_and_then prepare_frames_def split: if_splits)
  from es have ff: "frame_file a \<noteq> ''none''" and c: "c = cams" and p: "paths = imgs"
    by (auto simp add: estimate_def in_trace_and_then split: if_splits)
  from acquire_loop_on_disk [OF ff ac [unfolded acquire_def]] ff c p show ?thesis
    by simp
qed

lemma main_estimator_run:
  assumes "EstimatorRun c paths \<in> set (fst (main env a))"
  shows "\<exists>cams. snd (load_inputs env a) = Inr cams
           \<and> EstimatorRun c paths \<in> set (fst (reconstruct env a cams))"
  using main_trace_cases [OF assms]
  by (auto dest: load_inputs_events write_results_events cleanup_events
        visualize_results_events)

lemma append_le_append: "(p @ x :: 'c::linorder list) \<le> p @ y \<longleftrightarrow> x \<le> y"
  by (induction p) simp_all

lemma sort_map_prefix:
  "sort (map ((@) p) (names :: 'c::linorder list list)) = map ((@) p) (sort names)"
proof (rule properties_for_sort)
  show "mset (map ((@) p) (sort names)) = mset (map ((@) p) names)"
    by simp
  show "sorted (map ((@) p) (sort names))"
    by (simp add: sorted_map sorted_wrt_iff_nth_less append_le_append)
      (metis sorted_sort sorted_iff_nth_mono less_imp_le length_sort)
qed


lemma acquire_view_skips:
  assumes "frame_file a = ''keep''"
    and "check_path_existence env (view_temp_dir a k) ''dir'' = DirectoryExistNotEmpty"
  shows "fst (acquire_view env a k st) = []"
  using assms
  by (cases st) (simp add: acquire_view_def fst_and_then Let_def)

lemma acquire_view_materializes:
  assumes "snd (acquire_view env a k st) = Inr st'"
    and "\<not> (frame_file a = ''keep''
            \<and> check_path_existence env (view_temp_dir a k) ''dir'' = DirectoryExistNotEmpty)"
  shows "GetKinectColor k \<in> set (fst (acquire_view env a k st))
     \<and> (frame_file a \<noteq> ''none''
          \<longrightarrow> (\<exists>x. ArrayToImages x (view_temp_dir a k) \<in> set (fst (acquire_view env a k st))))"
  using assms
  by (cases st)
     (auto simp add: acquire_view_def snd_and_then_Inr in_trace_and_then Let_def
        split: if_splits)

lemma main_array_to_images:
  assumes "ArrayToImages x d \<in> set (fst (main env a))"
  shows "ArrayToImages x d \<in> set (fst (acquire env a))"
proof -
  from main_trace_cases [OF assms] obtain c where
    "ArrayToImages x d \<in> set (fst (reconstruct env a c))"
    by (auto dest: load_inputs_events write_results_events cleanup_events
          visualize_results_events)
  then show ?thesis
    by (auto simp add: reconstruct_def in_trace_and_then prepare_frames_def
          dest: estimate_events split: if_splits)
qed


subsection \<open>The triangulator of the specification\<close>

lemma triangulate_entry:
  assumes "f < n_frame" and "j < n_joint"
  shows "kps3d (triangulate solve cams views n_frame n_joint) ! f ! j
           = triangulate_joint solve cams views f j"
    and "mask3d (triangulate solve cams views n_frame n_joint) ! f ! j
           = (triangulate_joint solve cams views f j \<noteq> None)"
  using assms by (simp_all add: triangulate_def Let_def)

lemma triangulate_joint_cong:
  assumes "length views' = length views"
    and "\<forall>v<length views. contributes (views' ! v) f j = contributes (views ! v) f j"
    and "\<forall>v<length views. contributes (views ! v) f j
           \<longrightarrow> points (the (views' ! v)) f j = points (the (views ! v)) f j
               \<and> cams' ! v = cams ! v"
  shows "triangulate_joint solve cams' views' f j = triangulate_joint solve cams views f j"
proof -
  have vs: "contributing_views views' f j = contributing_views views f j"
    unfolding contributing_views_def using assms(1,2)
    by (auto intro: filter_cong)
  have obs: "map (\<lambda>v. (cams' ! v, points (the (views' ! v)) f j)) (contributing_views views f j)
      = map (\<lambda>v. (cams ! v, points (the (views ! v)) f j)) (contributing_views views f j)"
    using assms(3) by (intro map_cong) (auto simp add: contributing_views_def)
  show ?thesis
    by (simp only: triangulate_joint_def vs Let_def obs)
qed

lemma set_contributing_views:
  "set (contributing_views views f j)
     = {v. v < length views \<and> (\<exists>k. views ! v = Some k \<and> valid k f j)}"
  by (auto simp add: contributing_views_def contributes_def split: option.splits)


subsection \<open>The cameras a run hands on\<close>

lemma to_camera_to_world_flag [simp]: "\<not> world2cam (to_camera_to_world env c)"
  by (simp add: to_camera_to_world_def inverse_extrinsic_def Let_def)

lemma load_inputs_Inr:
  "snd (load_inputs env a) = Inr cams \<Longrightarrow> get_all_color_kinect_parameter_from_smc env = Inr cams"
  by (auto simp add: load_inputs_def snd_and_then_Inr)

lemma visualize_results_smpl_camera:
  assumes "VisualizeSmplCalibration d c x p \<in> set (fst (visualize_results env a cams k3 s t))"
  shows "\<not> world2cam c"
proof -
  have loop: "\<forall>e\<in>set (fst (for_each (visualize_projected env a) xs ())).
      e \<noteq> VisualizeSmplCalibration d c x p" for xs
    by (rule trace_for_each_sat) (auto dest: visualize_projected_events)
  show ?thesis
    using assms loop [of "range_step 0 (projector_n_view env) 3"]
    by (auto simp add: visualize_results_def visualize_keypoints3d_def visualize_smpl_def
          in_trace_and_then Let_def inverse_extrinsic_def split: option.splits if_splits)
qed

lemma main_estimator_run_cameras:
  assumes "EstimatorRun c p \<in> set (fst (main env a))"
  shows "snd (load_inputs env a) = Inr c"
  using main_trace_cases [OF assms]
  by (auto dest: load_inputs_events reconstruct_events write_results_events cleanup_events
        visualize_results_events)

lemma main_estimate_keypoints3d_cameras:
  assumes "EstimateKeypoints3d c k \<in> set (fst (main env a))"
  shows "snd (load_inputs env a) = Inr c"
  using main_trace_cases [OF assms]
  by (auto dest: load_inputs_events reconstruct_events write_results_events cleanup_events
        visualize_results_events)

lemma main_visualize_smpl_camera:
  assumes "VisualizeSmplCalibration d c x p \<in> set (fst (main env a))"
  shows "\<not> world2cam c"
  using main_trace_cases [OF assms]
  by (auto dest: load_inputs_events reconstruct_events write_results_events cleanup_events
        visualize_results_smpl_camera)


subsection \<open>What the loop over the views returns\<close>

lemma acquire_loop_in_memory_result:
  assumes "frame_file a = ''none''"
    and "\<forall>k\<in>set ks. get_kinect_color env k = Inr (fr k)"
  shows "snd (for_each (acquire_view env a) ks (kps, imgs))
     = (case estimate_views env (map (\<lambda>k. expand_dims0 env (rgb2bgr env (fr k))) ks) of
          Inl e \<Rightarrow> Inl e
        | Inr l \<Rightarrow> Inr (kps @ l, imgs))"
  using assms(2)
proof (induction ks arbitrary: kps)
  case Nil
  then show ?case by simp
next
  case (Cons k ks)
  let ?x = "expand_dims0 env (rgb2bgr env (fr k))"
  have g: "get_kinect_color env k = Inr (fr k)"
    using Cons.prems by simp
  have IH: "snd (for_each (acquire_view env a) ks (kps', imgs))
     = (case estimate_views env (map (\<lambda>k. expand_dims0 env (rgb2bgr env (fr k))) ks) of
          Inl e \<Rightarrow> Inl e
        | Inr l \<Rightarrow> Inr (kps' @ l, imgs))" for kps'
    using Cons.IH Cons.prems by simp
  show ?case
  proof (cases "estimate_keypoints2d env ?x")
    case (Inl e)
    then have "snd (acquire_view env a k (kps, imgs)) = Inl e"
      using assms(1) g by (simp add: acquire_view_def and_then_def Let_def)
    then show ?thesis
      using Inl by (simp add: and_then_Inl)
  next
    case (Inr l)
    then have "snd (acquire_view env a k (kps, imgs)) = Inr (kps @ l, imgs)"
      using assms(1) g by (simp add: acquire_view_def and_then_def Let_def)
    then show ?thesis
      using Inr IH [of "kps @ l"]
      by (simp add: and_then_Inr split: sum.splits)
  qed
qed

lemma acquire_loop_on_disk_result:
  assumes "frame_file a \<noteq> ''none''"
    and "\<forall>k\<in>set ks. \<exists>fr. get_kinect_color env k = Inr fr"
    and "\<forall>ev. effect env ev = None"
  shows "snd (for_each (acquire_view env a) ks (kps, imgs))
     = Inr (kps, imgs @ map (\<lambda>k. sort (glob env (os_path_join (view_temp_dir a k) ''*.png''))) ks)"
  using assms(2)
proof (induction ks arbitrary: imgs)
  case Nil
  then show ?case by simp
next
  case (Cons k ks)
  from Cons.prems obtain fr where g: "get_kinect_color env k = Inr fr"
    by auto
  have "snd (acquire_view env a k (kps, imgs))
        = Inr (kps, imgs @ [sort (glob env (os_path_join (view_temp_dir a k) ''*.png''))])"
    using assms(1,3) g by (simp add: acquire_view_def and_then_def perform_def Let_def)
  then show ?case
    using Cons.IH Cons.prems by (simp add: and_then_Inr)
qed

lemma estimate_views_run_update: "estimate_views (env\<lparr>run := r\<rparr>) xs = estimate_views env xs"
  by (induction xs) (simp_all split: sum.splits)

lemma batch_run_run_update: "batch_run (env\<lparr>run := r\<rparr>) = batch_run env"
  by (simp add: batch_run_def fun_eq_iff estimate_views_run_update split: sum.splits)


section \<open>The claims\<close>

text \<open>
  Claim C5. Under the strategy \<^verbatim>\<open>temp\<close> the run deletes a directory tree exactly when
  the part of the run that ends with the last artifact (lines 30-117) has completed,
  and the tree is then the frame directory: \<^verbatim>\<open>shutil.rmtree(frame_temp_dir)\<close> is the
  call that follows the artifacts. When an earlier step raises, the run makes no such
  call, and the frames stay on disk.
\<close>

theorem temp_cache_removed_iff_artifacts_written:
  assumes "frame_file a = ''temp''"
  shows "(Rmtree p \<in> set (fst (main env a))
           \<longleftrightarrow> p = frame_temp_dir a \<and> completes (process env a))
         \<and> (completes (process env a)
              \<longrightarrow> (\<exists>rest. fst (main env a)
                     = fst (process env a) @ Rmtree (frame_temp_dir a) # rest))"
proof (cases "snd (process env a)")
  case (Inl e)
  then show ?thesis
    using process_events_no_rmtree [of p env a]
    by (simp add: main_def and_then_Inl completes_def)
next
  case (Inr r)
  obtain c k s t where r: "r = (c, k, s, t)" by (cases r) auto
  show ?thesis
    using Inr r assms process_events_no_rmtree [of p env a]
      visualize_results_no_rmtree [of p env a c k s t]
    by (auto simp add: main_def and_then_Inr cleanup_def in_trace_and_then fst_and_then
          completes_def)
qed

theorem temp_cache_removed_iff_artifacts_written_witness:
  "frame_file (sample_args\<lparr>frame_file := ''temp''\<rparr>) = ''temp''
   \<and> completes (process sample_env (sample_args\<lparr>frame_file := ''temp''\<rparr>))
   \<and> Rmtree ''out/session07_temp_frames''
       \<in> set (fst (main sample_env (sample_args\<lparr>frame_file := ''temp''\<rparr>)))"
proof -
  have ff: "frame_file (sample_args\<lparr>frame_file := ''temp''\<rparr>) = ''temp''"
    by simp
  have ok: "completes (process sample_env (sample_args\<lparr>frame_file := ''temp''\<rparr>))"
    by code_simp
  have dir: "frame_temp_dir (sample_args\<lparr>frame_file := ''temp''\<rparr>)
             = ''out/session07_temp_frames''"
    by code_simp
  show ?thesis
    using temp_cache_removed_iff_artifacts_written
            [OF ff, of "''out/session07_temp_frames''" sample_env] ok dir
    by simp
qed

text \<open>
  Claim C10. With \<^verbatim>\<open>--visualize\<close>, the projector is asked once for the projections
  of all \<open>n_view\<close> cameras, but the loop that renders them is
  \<^verbatim>\<open>range(0, len(mview_kps2d), 3)\<close>: a projection video is rendered only for a view
  whose index is below \<open>n_view\<close> and a multiple of 3, under the name
  \<^verbatim>\<open>{smc_name}_projected_{view_idx:02d}.mp4\<close>; and a run that completes has rendered
  the video of every such view.
\<close>

theorem projected_videos_every_third_view:
  "(VisualizeKp2d v x p \<in> set (fst (main env a))
      \<longrightarrow> visualize a \<and> v < projector_n_view env \<and> 3 dvd v \<and> p = projected_path a v)
   \<and> (visualize a \<and> completes (main env a) \<and> v < projector_n_view env \<and> 3 dvd v
      \<longrightarrow> (\<exists>k3. Project k3 \<in> set (fst (main env a)))
          \<and> (\<exists>x. VisualizeKp2d v x (projected_path a v) \<in> set (fst (main env a))))"
proof (rule conjI)
  show "VisualizeKp2d v x p \<in> set (fst (main env a))
      \<longrightarrow> visualize a \<and> v < projector_n_view env \<and> 3 dvd v \<and> p = projected_path a v"
  proof
    assume "VisualizeKp2d v x p \<in> set (fst (main env a))"
    then obtain c k3 s t where
      "VisualizeKp2d v x p \<in> set (fst (visualize_results env a c k3 s t))"
      using process_events [of "VisualizeKp2d v x p" env a]
      by (auto simp add: main_def in_trace_and_then cleanup_def split: if_splits)
    from visualize_results_kp2d [OF this]
    show "visualize a \<and> v < projector_n_view env \<and> 3 dvd v \<and> p = projected_path a v"
      by (simp add: set_range_step)
  qed
next
  show "visualize a \<and> completes (main env a) \<and> v < projector_n_view env \<and> 3 dvd v
      \<longrightarrow> (\<exists>k3. Project k3 \<in> set (fst (main env a)))
          \<and> (\<exists>x. VisualizeKp2d v x (projected_path a v) \<in> set (fst (main env a)))"
  proof
    assume h: "visualize a \<and> completes (main env a) \<and> v < projector_n_view env \<and> 3 dvd v"
    then obtain c k s t u where p: "snd (process env a) = Inr (c, k, s, t)"
      and cl: "snd (cleanup env a) = Inr ()"
      and vis: "snd (visualize_results env a c k s t) = Inr u"
      by (auto simp add: main_def completes_iff snd_and_then_Inr)
    from process_Inr [OF p] obtain k3 where k: "k = Some k3" by auto
    have sub: "e \<in> set (fst (visualize_results env a c k s t)) \<Longrightarrow> e \<in> set (fst (main env a))"
      for e
      using p cl by (auto simp add: main_def in_trace_and_then)
    have "v \<in> set (range_step 0 (projector_n_view env) 3)"
      using h by (simp add: set_range_step)
    from visualize_results_completes_kp2d [OF vis [unfolded k] _ this] h
    show "(\<exists>k3. Project k3 \<in> set (fst (main env a)))
          \<and> (\<exists>x. VisualizeKp2d v x (projected_path a v) \<in> set (fst (main env a)))"
      using sub k by blast
  qed
qed


theorem projected_videos_every_third_view_witness:
  "visualize sample_args \<and> completes (main sample_env sample_args)
   \<and> (3::nat) < projector_n_view sample_env \<and> (3::nat) dvd 3
   \<and> (\<exists>x. VisualizeKp2d 3 x ''out/session07_projected_03.mp4''
             \<in> set (fst (main sample_env sample_args)))
   \<and> VisualizeKp2d 1 101 ''out/session07_projected_01.mp4''
       \<notin> set (fst (main sample_env sample_args))"
proof -
  have hyp: "visualize sample_args \<and> completes (main sample_env sample_args)
             \<and> (3::nat) < projector_n_view sample_env \<and> (3::nat) dvd 3"
    by code_simp
  have path: "projected_path sample_args 3 = ''out/session07_projected_03.mp4''"
    by code_simp
  have odd: "\<not> (3::nat) dvd 1"
    by simp
  show ?thesis
    using projected_videos_every_third_view [of 3 _ _ sample_env sample_args]
      projected_videos_every_third_view
        [of 1 101 "''out/session07_projected_01.mp4''" sample_env sample_args]
      hyp path odd
    by auto
qed

text \<open>
  Claim C2, as the script has it. When the parent of the output directory is missing,
  the run raises FileNotFoundError before any call. When the input path is not an
  existing file, the run does not complete and the only calls it can have made are
  \<^verbatim>\<open>os.mkdir(args.output_dir)\<close> and \<^verbatim>\<open>setup_logger\<close>: no capture is read, no estimator
  built, no stage run, no artifact written. But the input path is checked at line 44,
  after the output directory was created (line 34) and the logger set up (lines 37-42):
  unless \<^verbatim>\<open>--disable_log_file\<close> is given, the logger was handed the log file
  \<^verbatim>\<open>{smc_name}_{time}.txt\<close> inside the output directory.
\<close>

theorem configuration_error_aborts:
  "(check_path_existence env (output_dir a) ''dir'' = MissingParent
      \<longrightarrow> main env a = ([], Inl FileNotFoundError))
   \<and> (check_path_existence env (smc_path a) ''file'' \<noteq> FileExist
      \<longrightarrow> \<not> completes (main env a)
          \<and> set (fst (main env a))
              \<subseteq> {Mkdir (output_dir a),
                  SetupLogger (if disable_log_file a then None else Some (log_path env a))})
   \<and> (check_path_existence env (smc_path a) ''file'' \<noteq> FileExist
       \<and> check_path_existence env (output_dir a) ''dir'' \<noteq> MissingParent
       \<and> (\<forall>ev. effect env ev = None)
      \<longrightarrow> main env a =
            ((if check_path_existence env (output_dir a) ''dir'' = DirectoryNotExist
              then [Mkdir (output_dir a)] else [])
             @ [SetupLogger (if disable_log_file a then None else Some (log_path env a))],
             Inl FileNotFoundError))"
proof (intro conjI)
  show "check_path_existence env (output_dir a) ''dir'' = MissingParent
      \<longrightarrow> main env a = ([], Inl FileNotFoundError)"
    by (simp add: main_def process_def load_inputs_def check_output_path_def and_then_Inl)
next
  show "check_path_existence env (smc_path a) ''file'' \<noteq> FileExist
      \<longrightarrow> \<not> completes (main env a)
          \<and> set (fst (main env a))
              \<subseteq> {Mkdir (output_dir a),
                  SetupLogger (if disable_log_file a then None else Some (log_path env a))}"
  proof
    assume h: "check_path_existence env (smc_path a) ''file'' \<noteq> FileExist"
    from load_inputs_bad_input [OF h] main_load_inputs_fails [of env a]
    show "\<not> completes (main env a)
          \<and> set (fst (main env a))
              \<subseteq> {Mkdir (output_dir a),
                  SetupLogger (if disable_log_file a then None else Some (log_path env a))}"
      by (simp add: completes_def)
  qed
next
  show "check_path_existence env (smc_path a) ''file'' \<noteq> FileExist
       \<and> check_path_existence env (output_dir a) ''dir'' \<noteq> MissingParent
       \<and> (\<forall>ev. effect env ev = None)
      \<longrightarrow> main env a =
            ((if check_path_existence env (output_dir a) ''dir'' = DirectoryNotExist
              then [Mkdir (output_dir a)] else [])
             @ [SetupLogger (if disable_log_file a then None else Some (log_path env a))],
             Inl FileNotFoundError)"
  proof
    assume h: "check_path_existence env (smc_path a) ''file'' \<noteq> FileExist
       \<and> check_path_existence env (output_dir a) ''dir'' \<noteq> MissingParent
       \<and> (\<forall>ev. effect env ev = None)"
    then have "\<not> completes (load_inputs env a)"
      using load_inputs_bad_input(1) by blast
    moreover have "load_inputs env a =
            ((if check_path_existence env (output_dir a) ''dir'' = DirectoryNotExist
              then [Mkdir (output_dir a)] else [])
             @ [SetupLogger (if disable_log_file a then None else Some (log_path env a))],
             Inl FileNotFoundError)"
      using h
      by (simp add: load_inputs_def check_output_path_def setup_logging_def
            check_input_path_def Let_def and_then_def perform_def)
    ultimately show "main env a =
            ((if check_path_existence env (output_dir a) ''dir'' = DirectoryNotExist
              then [Mkdir (output_dir a)] else [])
             @ [SetupLogger (if disable_log_file a then None else Some (log_path env a))],
             Inl FileNotFoundError)"
      using main_load_inputs_fails [of env a] by simp
  qed
qed

theorem configuration_error_aborts_witness:
  "check_path_existence bare_env (smc_path (sample_args\<lparr>smc_path := ''data/missing.smc''\<rparr>)) ''file''
     \<noteq> FileExist
   \<and> check_path_existence bare_env (output_dir sample_args) ''dir'' \<noteq> MissingParent
   \<and> (\<forall>ev. effect bare_env ev = None)
   \<and> \<not> completes (main bare_env (sample_args\<lparr>smc_path := ''data/missing.smc''\<rparr>))
   \<and> check_path_existence bare_env (output_dir (sample_args\<lparr>output_dir := ''a/b''\<rparr>)) ''dir''
       = MissingParent
   \<and> main bare_env (sample_args\<lparr>output_dir := ''a/b''\<rparr>) = ([], Inl FileNotFoundError)"
proof -
  have h1: "check_path_existence bare_env
              (smc_path (sample_args\<lparr>smc_path := ''data/missing.smc''\<rparr>)) ''file'' \<noteq> FileExist"
    by (simp add: bare_env_def sample_env_def)
  have h2: "check_path_existence bare_env (output_dir sample_args) ''dir'' \<noteq> MissingParent"
    by (simp add: bare_env_def sample_env_def sample_args_def)
  have h3: "\<forall>ev. effect bare_env ev = None"
    by (simp add: bare_env_def sample_env_def)
  have h4: "check_path_existence bare_env (output_dir (sample_args\<lparr>output_dir := ''a/b''\<rparr>)) ''dir''
       = MissingParent"
    by (simp add: bare_env_def sample_env_def)
  show ?thesis
    using configuration_error_aborts [of bare_env "sample_args\<lparr>smc_path := ''data/missing.smc''\<rparr>"]
      configuration_error_aborts [of bare_env "sample_args\<lparr>output_dir := ''a/b''\<rparr>"]
      h1 h2 h3 h4
    by (simp add: completes_def)
qed


text \<open>
  Claim C2 as stated fails: invoked with an input path that does not exist, and an
  output directory that does not exist either, the run creates the directory and sets
  the logger up on a log file inside it before it raises FileNotFoundError.
\<close>

theorem missing_input_leaves_log_file:
  "main bare_env (sample_args\<lparr>smc_path := ''data/missing.smc''\<rparr>)
     = ([Mkdir ''out'', SetupLogger (Some ''out/missing_2022.01.01_00:00:00.txt'')],
        Inl FileNotFoundError)"
  by code_simp


text \<open>
  Claim C3, as the script has it. Every artifact the run writes is named, inside the
  output directory, \<^verbatim>\<open>{smc_name}_keypoints2d_view{NN}.npz\<close> (\<open>NN\<close> the position in the
  list of 2D keypoints, zero-padded to two digits), \<^verbatim>\<open>{smc_name}_keypoints3d.npz\<close>, or
  \<^verbatim>\<open>{smc_name}_{variant}_data.npz\<close>, where the variant is \<^verbatim>\<open>smplx\<close> exactly for an
  \<^verbatim>\<open>SMPLXData\<close> object and \<^verbatim>\<open>smpl\<close> otherwise. When the run gets past the last artifact,
  and \<open>kps\<close>, \<open>k3\<close>, \<open>s\<close> are the 2D keypoints, the 3D keypoints and the body-model
  parameters that lines 56-98 ended with, the 2D artifacts the run has written are
  exactly one for each present entry of \<open>kps\<close>, under the name of its index, and the
  artifacts of \<open>k3\<close> and of \<open>s\<close> are written.
\<close>

theorem artifact_names_npz:
  "(DumpKeypoints2d k p \<in> set (fst (main env a))
      \<longrightarrow> (\<exists>i. p = os_path_join (output_dir a)
                     (smc_name_of a @ ''_keypoints2d_view'' @ fmt_02d i @ ''.npz'')))
   \<and> (DumpKeypoints3d k p \<in> set (fst (main env a))
      \<longrightarrow> p = os_path_join (output_dir a) (smc_name_of a @ ''_keypoints3d.npz''))
   \<and> (DumpSmpl d p \<in> set (fst (main env a))
      \<longrightarrow> p = os_path_join (output_dir a)
                (smc_name_of a @ ''_''
                 @ (case d of SMPLXData x \<Rightarrow> ''smplx'' | SMPLData x \<Rightarrow> ''smpl'')
                 @ ''_data.npz''))
   \<and> (snd (load_inputs env a) = Inr c \<and> snd (reconstruct env a c) = Inr (kps, k3, s)
       \<and> completes (process env a)
      \<longrightarrow> (\<forall>k' p'. DumpKeypoints2d k' p' \<in> set (fst (main env a))
                     \<longleftrightarrow> (\<exists>i<length kps. kps ! i = Some k'
                           \<and> p' = os_path_join (output_dir a)
                                 (smc_name_of a @ ''_keypoints2d_view'' @ fmt_02d i @ ''.npz'')))
          \<and> (\<exists>k'. k3 = Some k'
                 \<and> DumpKeypoints3d k'
                      (os_path_join (output_dir a) (smc_name_of a @ ''_keypoints3d.npz''))
                    \<in> set (fst (main env a)))
          \<and> (\<exists>d'. s = Some d'
                 \<and> DumpSmpl d'
                      (os_path_join (output_dir a)
                         (smc_name_of a @ ''_''
                          @ (case d' of SMPLXData x \<Rightarrow> ''smplx'' | SMPLData x \<Rightarrow> ''smpl'')
                          @ ''_data.npz''))
                    \<in> set (fst (main env a))))"
proof (intro conjI)
  show "DumpKeypoints2d k p \<in> set (fst (main env a))
      \<longrightarrow> (\<exists>i. p = os_path_join (output_dir a)
                     (smc_name_of a @ ''_keypoints2d_view'' @ fmt_02d i @ ''.npz''))"
  proof
    assume "DumpKeypoints2d k p \<in> set (fst (main env a))"
    from main_dump2d [OF this] obtain kps k3 s where
      "DumpKeypoints2d k p \<in> set (fst (write_results env a (kps, k3, s)))"
      by (metis prod_cases3)
    then show "\<exists>i. p = os_path_join (output_dir a)
                     (smc_name_of a @ ''_keypoints2d_view'' @ fmt_02d i @ ''.npz'')"
      by (auto simp add: write_results_dump2d keypoints2d_path_def dest!: write_loop_events)
  qed
next
  show "DumpKeypoints3d k p \<in> set (fst (main env a))
      \<longrightarrow> p = os_path_join (output_dir a) (smc_name_of a @ ''_keypoints3d.npz'')"
  proof
    assume "DumpKeypoints3d k p \<in> set (fst (main env a))"
    from main_dump3d [OF this] obtain kps k3 s where
      "DumpKeypoints3d k p \<in> set (fst (write_results env a (kps, k3, s)))"
      by (metis prod_cases3)
    then show "p = os_path_join (output_dir a) (smc_name_of a @ ''_keypoints3d.npz'')"
      by (auto simp add: keypoints3d_path_def dest!: write_results_dump3d)
  qed
next
  show "DumpSmpl d p \<in> set (fst (main env a))
      \<longrightarrow> p = os_path_join (output_dir a)
                (smc_name_of a @ ''_''
                 @ (case d of SMPLXData x \<Rightarrow> ''smplx'' | SMPLData x \<Rightarrow> ''smpl'')
                 @ ''_data.npz'')"
  proof
    assume "DumpSmpl d p \<in> set (fst (main env a))"
    from main_dump_smpl [OF this] obtain kps k3 s where
      "DumpSmpl d p \<in> set (fst (write_results env a (kps, k3, s)))"
      by (metis prod_cases3)
    then show "p = os_path_join (output_dir a)
                (smc_name_of a @ ''_''
                 @ (case d of SMPLXData x \<Rightarrow> ''smplx'' | SMPLData x \<Rightarrow> ''smpl'')
                 @ ''_data.npz'')"
      by (cases d) (auto simp add: smpl_path_def smpl_type_of_def dest!: write_results_dump_smpl)
  qed
next
  show "snd (load_inputs env a) = Inr c \<and> snd (reconstruct env a c) = Inr (kps, k3, s)
       \<and> completes (process env a)
      \<longrightarrow> (\<forall>k' p'. DumpKeypoints2d k' p' \<in> set (fst (main env a))
                     \<longleftrightarrow> (\<exists>i<length kps. kps ! i = Some k'
                           \<and> p' = os_path_join (output_dir a)
                                 (smc_name_of a @ ''_keypoints2d_view'' @ fmt_02d i @ ''.npz'')))
          \<and> (\<exists>k'. k3 = Some k'
                 \<and> DumpKeypoints3d k'
                      (os_path_join (output_dir a) (smc_name_of a @ ''_keypoints3d.npz''))
                    \<in> set (fst (main env a)))
          \<and> (\<exists>d'. s = Some d'
                 \<and> DumpSmpl d'
                      (os_path_join (output_dir a)
                         (smc_name_of a @ ''_''
                          @ (case d' of SMPLXData x \<Rightarrow> ''smplx'' | SMPLData x \<Rightarrow> ''smpl'')
                          @ ''_data.npz''))
                    \<in> set (fst (main env a)))"
  proof
    assume h: "snd (load_inputs env a) = Inr c \<and> snd (reconstruct env a c) = Inr (kps, k3, s)
       \<and> completes (process env a)"
    then have l: "snd (load_inputs env a) = Inr c"
      and r: "snd (reconstruct env a c) = Inr (kps, k3, s)"
      by simp_all
    from h process_completes_parts [of env a] obtain t where
      w: "snd (write_results env a (kps, k3, s)) = Inr t"
      using l r by auto
    from write_results_completes_dumps [OF w] obtain k3' ds' where
      k3: "k3 = Some k3'" and s: "s = Some ds'"
      and loop: "snd (for_each (write_keypoints2d env a) (enumerate 0 kps) ()) = Inr ()"
      and d3: "DumpKeypoints3d k3' (keypoints3d_path a)
                 \<in> set (fst (write_results env a (kps, k3, s)))"
      and ds: "DumpSmpl ds' (smpl_path a (smpl_type_of (Some ds')))
                 \<in> set (fst (write_results env a (kps, k3, s)))"
      by blast
    have two: "DumpKeypoints2d k' p' \<in> set (fst (main env a))
                 \<longleftrightarrow> (\<exists>i<length kps. kps ! i = Some k'
                       \<and> p' = os_path_join (output_dir a)
                             (smc_name_of a @ ''_keypoints2d_view'' @ fmt_02d i @ ''.npz''))"
      for k' p'
    proof
      assume "DumpKeypoints2d k' p' \<in> set (fst (main env a))"
      from main_dump2d [OF this] l r
      have "DumpKeypoints2d k' p' \<in> set (fst (write_results env a (kps, k3, s)))"
        by auto
      then show "\<exists>i<length kps. kps ! i = Some k'
                       \<and> p' = os_path_join (output_dir a)
                             (smc_name_of a @ ''_keypoints2d_view'' @ fmt_02d i @ ''.npz'')"
        by (auto simp add: write_results_dump2d keypoints2d_path_def dest!: write_loop_events)
    next
      assume "\<exists>i<length kps. kps ! i = Some k'
                       \<and> p' = os_path_join (output_dir a)
                             (smc_name_of a @ ''_keypoints2d_view'' @ fmt_02d i @ ''.npz'')"
      then obtain i where i: "i < length kps" "kps ! i = Some k'" "p' = keypoints2d_path a i"
        by (auto simp add: keypoints2d_path_def)
      from write_loop_completes_events [OF loop i(1)] i
      have "DumpKeypoints2d k' p' \<in> set (fst (write_results env a (kps, k3, s)))"
        by (simp add: write_results_dump2d)
      then show "DumpKeypoints2d k' p' \<in> set (fst (main env a))"
        by (rule main_trace_write_results [OF l r])
    qed
    have three: "DumpKeypoints3d k3'
                   (os_path_join (output_dir a) (smc_name_of a @ ''_keypoints3d.npz''))
                 \<in> set (fst (main env a))"
      using main_trace_write_results [OF l r d3] by (simp add: keypoints3d_path_def)
    have four: "DumpSmpl ds'
                   (os_path_join (output_dir a)
                      (smc_name_of a @ ''_''
                       @ (case ds' of SMPLXData x \<Rightarrow> ''smplx'' | SMPLData x \<Rightarrow> ''smpl'')
                       @ ''_data.npz''))
                 \<in> set (fst (main env a))"
      using main_trace_write_results [OF l r ds]
      by (cases ds') (simp_all add: smpl_path_def smpl_type_of_def)
    show "(\<forall>k' p'. DumpKeypoints2d k' p' \<in> set (fst (main env a))
                     \<longleftrightarrow> (\<exists>i<length kps. kps ! i = Some k'
                           \<and> p' = os_path_join (output_dir a)
                                 (smc_name_of a @ ''_keypoints2d_view'' @ fmt_02d i @ ''.npz'')))
          \<and> (\<exists>k'. k3 = Some k'
                 \<and> DumpKeypoints3d k'
                      (os_path_join (output_dir a) (smc_name_of a @ ''_keypoints3d.npz''))
                    \<in> set (fst (main env a)))
          \<and> (\<exists>d'. s = Some d'
                 \<and> DumpSmpl d'
                      (os_path_join (output_dir a)
                         (smc_name_of a @ ''_''
                          @ (case d' of SMPLXData x \<Rightarrow> ''smplx'' | SMPLData x \<Rightarrow> ''smpl'')
                          @ ''_data.npz''))
                    \<in> set (fst (main env a)))"
      using two three four k3 s by blast
  qed
qed

theorem artifact_names_npz_witness:
  "snd (load_inputs sample_env sample_args) = Inr (replicate 4 sample_cam)
   \<and> snd (reconstruct sample_env sample_args (replicate 4 sample_cam))
       = Inr ([Some 200, Some 201, None, Some 203], Some 7, Some (SMPLXData 9))
   \<and> completes (process sample_env sample_args)
   \<and> DumpKeypoints2d 200 ''out/session07_keypoints2d_view00.npz''
       \<in> set (fst (main sample_env sample_args))
   \<and> DumpKeypoints2d 203 ''out/session07_keypoints2d_view03.npz''
       \<in> set (fst (main sample_env sample_args))
   \<and> DumpKeypoints3d 7 ''out/session07_keypoints3d.npz''
       \<in> set (fst (main sample_env sample_args))
   \<and> DumpSmpl (SMPLXData 9) ''out/session07_smplx_data.npz''
       \<in> set (fst (main sample_env sample_args))"
proof -
  let ?kps = "[Some 200, Some 201, None, Some (203::nat)]"
  have l: "snd (load_inputs sample_env sample_args) = Inr (replicate 4 sample_cam)"
    by code_simp
  have r: "snd (reconstruct sample_env sample_args (replicate 4 sample_cam))
       = Inr (?kps, Some 7, Some (SMPLXData 9))"
    by code_simp
  have ok: "completes (process sample_env sample_args)"
    by code_simp
  have paths:
    "os_path_join (output_dir sample_args)
       (smc_name_of sample_args @ ''_keypoints2d_view'' @ fmt_02d 0 @ ''.npz'')
     = ''out/session07_keypoints2d_view00.npz''"
    "os_path_join (output_dir sample_args)
       (smc_name_of sample_args @ ''_keypoints2d_view'' @ fmt_02d 3 @ ''.npz'')
     = ''out/session07_keypoints2d_view03.npz''"
    "os_path_join (output_dir sample_args) (smc_name_of sample_args @ ''_keypoints3d.npz'')
     = ''out/session07_keypoints3d.npz''"
    "os_path_join (output_dir sample_args)
       (smc_name_of sample_args @ ''_'' @ ''smplx'' @ ''_data.npz'')
     = ''out/session07_smplx_data.npz''"
    by code_simp+
  have hyp: "snd (load_inputs sample_env sample_args) = Inr (replicate 4 sample_cam)
             \<and> snd (reconstruct sample_env sample_args (replicate 4 sample_cam))
                 = Inr (?kps, Some 7, Some (SMPLXData 9))
             \<and> completes (process sample_env sample_args)"
    by (intro conjI) (rule l r ok)+
  note written =
    artifact_names_npz
      [of _ _ sample_env sample_args _ "replicate 4 sample_cam" ?kps "Some 7"
          "Some (SMPLXData 9)",
       THEN conjunct2, THEN conjunct2, THEN conjunct2, THEN mp, OF hyp]
  note two = written [THEN conjunct1, THEN spec, THEN spec, THEN iffD2]
  have first: "DumpKeypoints2d 200
                 (os_path_join (output_dir sample_args)
                    (smc_name_of sample_args @ ''_keypoints2d_view'' @ fmt_02d 0 @ ''.npz''))
                 \<in> set (fst (main sample_env sample_args))"
    by (rule two, rule exI [of _ 0]) simp
  have last: "DumpKeypoints2d 203
                 (os_path_join (output_dir sample_args)
                    (smc_name_of sample_args @ ''_keypoints2d_view'' @ fmt_02d 3 @ ''.npz''))
                 \<in> set (fst (main sample_env sample_args))"
    by (rule two, rule exI [of _ 3]) simp
  from written [THEN conjunct2, THEN conjunct1] obtain k' where
    "Some (7::nat) = Some k'"
    "DumpKeypoints3d k'
       (os_path_join (output_dir sample_args) (smc_name_of sample_args @ ''_keypoints3d.npz''))
       \<in> set (fst (main sample_env sample_args))"
    by (elim exE conjE)
  then have three: "DumpKeypoints3d 7
       (os_path_join (output_dir sample_args) (smc_name_of sample_args @ ''_keypoints3d.npz''))
       \<in> set (fst (main sample_env sample_args))"
    by simp
  from written [THEN conjunct2, THEN conjunct2] obtain d' where
    d: "Some (SMPLXData (9::nat)) = Some d'"
    "DumpSmpl d'
       (os_path_join (output_dir sample_args)
          (smc_name_of sample_args @ ''_''
           @ (case d' of SMPLXData x \<Rightarrow> ''smplx'' | SMPLData x \<Rightarrow> ''smpl'') @ ''_data.npz''))
       \<in> set (fst (main sample_env sample_args))"
    by (elim exE conjE)
  from d(1) have variant: "d' = SMPLXData 9"
    by simp
  have four: "DumpSmpl (SMPLXData 9)
       (os_path_join (output_dir sample_args)
          (smc_name_of sample_args @ ''_'' @ ''smplx'' @ ''_data.npz''))
       \<in> set (fst (main sample_env sample_args))"
    using d(2) unfolding variant smpl_data.case .
  show ?thesis
    by (intro conjI)
       (rule l r ok first [unfolded paths] last [unfolded paths] three [unfolded paths]
          four [unfolded paths])+
qed

text \<open>
  Claim C3 as stated fails on the suffix: for the capture \<^verbatim>\<open>session07\<close> and an SMPL-X
  fit the files are \<^verbatim>\<open>session07_keypoints3d.npz\<close> and \<^verbatim>\<open>session07_smplx_data.npz\<close>, and no
  file is named \<^verbatim>\<open>session07_keypoints3d\<close> or \<^verbatim>\<open>session07_smplx_data\<close>.
\<close>

theorem session07_artifacts_end_in_npz:
  "smc_name_of sample_args = ''session07''
   \<and> artifact_names (fst (main sample_env sample_args))
     = [''session07_keypoints2d_view00.npz'', ''session07_keypoints2d_view01.npz'',
        ''session07_keypoints2d_view03.npz'', ''session07_keypoints3d.npz'',
        ''session07_smplx_data.npz'']"
  by code_simp


text \<open>
  Claim C6. Let the estimator have returned a list of 2D keypoints whose entry \<open>i\<close> is
  absent (\<^verbatim>\<open>None\<close>), together with 3D keypoints and body-model parameters, and let no
  writer raise. Then the run gets past the artifacts (and to its end when no
  visualization is asked for): the absent entry stays in the list, the warning
  \<^verbatim>\<open>No keypoints2d has been detected in view{i:02d}.\<close> is logged, no 2D artifact is
  written under the name of view \<open>i\<close>, the 2D artifact of every present view and the
  3D artifact are written, and on the in-memory path the list handed to the
  triangulation call is the one with the absent entry, so that the view supplies no
  observation to it.
\<close>

theorem absent_view_is_skipped_with_warning:
  assumes "snd (load_inputs env a) = Inr c"
    and "snd (reconstruct env a c) = Inr (kps, Some p3, Some d)"
    and "i < length kps" and "kps ! i = None"
    and "\<forall>ev. effect env ev = None"
  shows "completes (process env a)
     \<and> (\<not> visualize a \<longrightarrow> completes (main env a))
     \<and> LogWarning (''No keypoints2d has been detected in view'' @ fmt_02d i @ ''.'')
         \<in> set (fst (main env a))
     \<and> (\<forall>k. DumpKeypoints2d k (keypoints2d_path a i) \<notin> set (fst (main env a)))
     \<and> (\<forall>j<length kps. \<forall>k. kps ! j = Some k
            \<longrightarrow> DumpKeypoints2d k (keypoints2d_path a j) \<in> set (fst (main env a)))
     \<and> DumpKeypoints3d p3 (keypoints3d_path a) \<in> set (fst (main env a))
     \<and> (frame_file a = ''none'' \<longrightarrow> EstimateKeypoints3d c kps \<in> set (fst (main env a)))"
proof -
  let ?res = "(kps, Some p3, Some d)"
  let ?loop = "for_each (write_keypoints2d env a) (enumerate 0 kps) ()"
  note l = assms(1) and r = assms(2)
  have w: "snd (write_results env a ?res) = Inr (smpl_type_of (Some d))"
    using assms(5) by (rule write_results_completes)
  have p: "snd (process env a) = Inr (c, Some p3, Some d, smpl_type_of (Some d))"
    using l r w by (simp add: process_def snd_and_then_Inr)
  have loop: "snd ?loop = Inr ()"
    using assms(5) by (rule write_loop_completes)
  have c1: "completes (process env a)"
    using p by (simp add: completes_iff)
  have c2: "\<not> visualize a \<longrightarrow> completes (main env a)"
    using p assms(5)
    by (auto simp add: main_def completes_iff snd_and_then_Inr cleanup_def
          visualize_results_def)
  have c3: "LogWarning (''No keypoints2d has been detected in view'' @ fmt_02d i @ ''.'')
         \<in> set (fst (main env a))"
    using write_loop_completes_events [OF loop assms(3)] assms(4)
      main_trace_write_results [OF l r]
    by (simp add: write_results_warning)
  have c4: "DumpKeypoints2d k (keypoints2d_path a i) \<notin> set (fst (main env a))" for k
  proof
    assume "DumpKeypoints2d k (keypoints2d_path a i) \<in> set (fst (main env a))"
    from main_dump2d [OF this] l r
    have "DumpKeypoints2d k (keypoints2d_path a i) \<in> set (fst ?loop)"
      by (auto simp add: write_results_dump2d)
    from write_loop_events [OF this] obtain j where
      "j < length kps" "kps ! j = Some k" "keypoints2d_path a i = keypoints2d_path a j"
      by auto
    then show False
      using assms(4) by (simp add: keypoints2d_path_inject)
  qed
  have c5: "DumpKeypoints2d k (keypoints2d_path a j) \<in> set (fst (main env a))"
    if "j < length kps" "kps ! j = Some k" for j k
    using write_loop_completes_events [OF loop that(1)] that(2)
      main_trace_write_results [OF l r]
    by (simp add: write_results_dump2d)
  have c6: "DumpKeypoints3d p3 (keypoints3d_path a) \<in> set (fst (main env a))"
    using write_results_completes_dumps [OF w] main_trace_write_results [OF l r]
    by auto
  have c7: "frame_file a = ''none'' \<longrightarrow> EstimateKeypoints3d c kps \<in> set (fst (main env a))"
    using reconstruct_in_memory_triangulates [OF _ r] main_trace_reconstruct [OF l]
    by blast
  show ?thesis
    using c1 c2 c3 c4 c5 c6 c7 by blast
qed

theorem absent_view_is_skipped_with_warning_witness:
  "snd (load_inputs sample_env sample_args) = Inr (replicate 4 sample_cam)
   \<and> snd (reconstruct sample_env sample_args (replicate 4 sample_cam))
       = Inr ([Some 200, Some 201, None, Some 203], Some 7, Some (SMPLXData 9))
   \<and> (\<forall>ev. effect sample_env ev = None)
   \<and> LogWarning ''No keypoints2d has been detected in view02.''
       \<in> set (fst (main sample_env sample_args))
   \<and> (\<forall>k. DumpKeypoints2d k ''out/session07_keypoints2d_view02.npz''
            \<notin> set (fst (main sample_env sample_args)))
   \<and> DumpKeypoints2d 203 ''out/session07_keypoints2d_view03.npz''
       \<in> set (fst (main sample_env sample_args))
   \<and> DumpKeypoints3d 7 ''out/session07_keypoints3d.npz''
       \<in> set (fst (main sample_env sample_args))"
proof -
  have l: "snd (load_inputs sample_env sample_args) = Inr (replicate 4 sample_cam)"
    by code_simp
  have r: "snd (reconstruct sample_env sample_args (replicate 4 sample_cam))
       = Inr ([Some 200, Some 201, None, Some 203], Some 7, Some (SMPLXData 9))"
    by code_simp
  have i: "2 < length [Some 200, Some 201, None, Some (203::nat)]"
    "[Some 200, Some 201, None, Some (203::nat)] ! 2 = None"
    by simp_all
  have e: "\<forall>ev. effect sample_env ev = None"
    by (simp add: sample_env_def)
  have n: "fmt_02d 2 = ''02''" "keypoints2d_path sample_args 2 = ''out/session07_keypoints2d_view02.npz''"
    "keypoints2d_path sample_args 3 = ''out/session07_keypoints2d_view03.npz''"
    "keypoints3d_path sample_args = ''out/session07_keypoints3d.npz''"
    by code_simp+
  have j: "3 < length [Some 200, Some 201, None, Some (203::nat)]"
    "[Some 200, Some 201, None, Some (203::nat)] ! 3 = Some 203"
    by simp_all
  note t = absent_view_is_skipped_with_warning [OF l r i e]
  have present: "DumpKeypoints2d 203 (keypoints2d_path sample_args 3)
                   \<in> set (fst (main sample_env sample_args))"
    using t j by blast
  show ?thesis
    using t present l r e n by simp
qed


text \<open>
  Claim C9. The estimator's \<^verbatim>\<open>run\<close> is called only under an on-disk strategy, with one
  list per view, in view order; the list of view \<open>k\<close> is
  \<^verbatim>\<open>sorted(glob.glob(view_temp_dir/*.png))\<close>: the paths the glob found, in ascending
  order of the strings. The paths of one view share the directory prefix, so that
  their order is the order of the file names.
\<close>

theorem frame_paths_sorted_by_filename:
  assumes "EstimatorRun c paths \<in> set (fst (main env a))"
  shows "frame_file a \<noteq> ''none'' \<and> length paths = num_kinects env
     \<and> (\<forall>k<num_kinects env.
           paths ! k = sort (glob env (os_path_join (view_temp_dir a k) ''*.png''))
           \<and> sorted (paths ! k)
           \<and> mset (paths ! k) = mset (glob env (os_path_join (view_temp_dir a k) ''*.png''))
           \<and> (\<forall>names. glob env (os_path_join (view_temp_dir a k) ''*.png'')
                         = map ((@) (view_temp_dir a k @ ''/'')) names
                 \<longrightarrow> paths ! k = map ((@) (view_temp_dir a k @ ''/'')) (sort names)))"
proof -
  from main_estimator_run [OF assms] obtain cams where
    "EstimatorRun c paths \<in> set (fst (reconstruct env a cams))"
    by blast
  from reconstruct_estimator_run [OF this] have ff: "frame_file a \<noteq> ''none''"
    and p: "paths = map (\<lambda>k. sort (glob env (os_path_join (view_temp_dir a k) ''*.png'')))
                      [0 ..< num_kinects env]"
    by simp_all
  have "length paths = num_kinects env"
    by (simp add: p)
  moreover have "paths ! k = sort (glob env (os_path_join (view_temp_dir a k) ''*.png''))"
    if "k < num_kinects env" for k
    using that by (simp add: p)
  moreover have "sort (glob env (os_path_join (view_temp_dir a k) ''*.png''))
                 = map ((@) (view_temp_dir a k @ ''/'')) (sort names)"
    if "glob env (os_path_join (view_temp_dir a k) ''*.png'')
          = map ((@) (view_temp_dir a k @ ''/'')) names" for k names
    by (simp only: that sort_map_prefix)
  ultimately show ?thesis
    using ff by simp
qed

theorem frame_paths_sorted_by_filename_witness:
  "EstimatorRun (replicate 4 sample_cam)
     (map (\<lambda>v. [v @ ''/000000.png'', v @ ''/000001.png''])
        [''out/session07_temp_frames/view_00'', ''out/session07_temp_frames/view_01'',
         ''out/session07_temp_frames/view_02'', ''out/session07_temp_frames/view_03''])
     \<in> set (fst (main sample_env (sample_args\<lparr>frame_file := ''temp''\<rparr>)))
   \<and> glob sample_env (os_path_join (view_temp_dir (sample_args\<lparr>frame_file := ''temp''\<rparr>) 0)
                        ''*.png'')
       = map ((@) (view_temp_dir (sample_args\<lparr>frame_file := ''temp''\<rparr>) 0 @ ''/''))
           [''000001.png'', ''000000.png'']
   \<and> sorted [''out/session07_temp_frames/view_00/000000.png'',
              ''out/session07_temp_frames/view_00/000001.png'']"
proof -
  let ?a = "sample_args\<lparr>frame_file := ''temp''\<rparr>"
  let ?paths = "map (\<lambda>v. [v @ ''/000000.png'', v @ ''/000001.png''])
        [''out/session07_temp_frames/view_00'', ''out/session07_temp_frames/view_01'',
         ''out/session07_temp_frames/view_02'', ''out/session07_temp_frames/view_03'']"
  have run: "EstimatorRun (replicate 4 sample_cam) ?paths \<in> set (fst (main sample_env ?a))"
    by code_simp
  have names: "glob sample_env (os_path_join (view_temp_dir ?a 0) ''*.png'')
       = map ((@) (view_temp_dir ?a 0 @ ''/'')) [''000001.png'', ''000000.png'']"
    by code_simp
  have n: "(0::nat) < num_kinects sample_env"
    by (simp add: sample_env_def)
  have "sorted (?paths ! 0)"
    using frame_paths_sorted_by_filename [OF run] n by blast
  then show ?thesis
    using run names by simp
qed

text \<open>
  Claim C4. Frames of view \<open>k\<close> are materialized by \<^verbatim>\<open>get_kinect_color(k)\<close> in the loop
  over the views (and, under an on-disk strategy, \<^verbatim>\<open>array_to_images\<close> into the
  directory of the view). Under \<^verbatim>\<open>keep\<close>, when \<^verbatim>\<open>check_path_existence\<close> reports the
  directory of view \<open>k\<close> as existing and not empty, the loop makes neither call for
  that view and the run never writes frames into that directory; when this holds of
  every view, the loop makes no call at all. In every other case a loop that
  completes has decoded the frames of view \<open>k\<close> and, under an on-disk strategy,
  written them into the directory of the view.
\<close>

theorem keep_reuses_nonempty_view_directory:
  "(frame_file a = ''keep''
      \<and> check_path_existence env (view_temp_dir a k) ''dir'' = DirectoryExistNotEmpty
     \<longrightarrow> GetKinectColor k \<notin> set (fst (acquire env a))
         \<and> (\<forall>x. ArrayToImages x (view_temp_dir a k) \<notin> set (fst (main env a))))
   \<and> (frame_file a = ''keep''
      \<and> (\<forall>j<num_kinects env.
            check_path_existence env (view_temp_dir a j) ''dir'' = DirectoryExistNotEmpty)
     \<longrightarrow> fst (acquire env a) = [])
   \<and> (completes (acquire env a) \<and> k < num_kinects env
      \<and> \<not> (frame_file a = ''keep''
            \<and> check_path_existence env (view_temp_dir a k) ''dir'' = DirectoryExistNotEmpty)
     \<longrightarrow> GetKinectColor k \<in> set (fst (acquire env a))
         \<and> (frame_file a \<noteq> ''none''
              \<longrightarrow> (\<exists>x. ArrayToImages x (view_temp_dir a k) \<in> set (fst (acquire env a)))))"
proof (intro conjI)
  show "frame_file a = ''keep''
      \<and> check_path_existence env (view_temp_dir a k) ''dir'' = DirectoryExistNotEmpty
     \<longrightarrow> GetKinectColor k \<notin> set (fst (acquire env a))
         \<and> (\<forall>x. ArrayToImages x (view_temp_dir a k) \<notin> set (fst (main env a)))"
  proof
    assume h: "frame_file a = ''keep''
      \<and> check_path_existence env (view_temp_dir a k) ''dir'' = DirectoryExistNotEmpty"
    have none: "e \<in> set (fst (acquire env a)) \<Longrightarrow>
        e \<noteq> GetKinectColor k \<and> (\<forall>x. e \<noteq> ArrayToImages x (view_temp_dir a k))" for e
    proof -
      assume "e \<in> set (fst (acquire env a))"
      then obtain j st where e: "e \<in> set (fst (acquire_view env a j st))"
        unfolding acquire_def by (blast dest: for_each_trace_origin)
      then have "j \<noteq> k"
        using acquire_view_skips [of a env k st] h by auto
      then show ?thesis
        using acquire_view_events [OF e] by (auto simp add: view_temp_dir_inject)
    qed
    have g: "GetKinectColor k \<notin> set (fst (acquire env a))"
      using none [of "GetKinectColor k"] by blast
    have w: "ArrayToImages x (view_temp_dir a k) \<notin> set (fst (main env a))" for x
    proof
      assume "ArrayToImages x (view_temp_dir a k) \<in> set (fst (main env a))"
      from none [OF main_array_to_images [OF this]] show False
        by blast
    qed
    show "GetKinectColor k \<notin> set (fst (acquire env a))
         \<and> (\<forall>x. ArrayToImages x (view_temp_dir a k) \<notin> set (fst (main env a)))"
      using g w by blast
  qed
next
  show "frame_file a = ''keep''
      \<and> (\<forall>j<num_kinects env.
            check_path_existence env (view_temp_dir a j) ''dir'' = DirectoryExistNotEmpty)
     \<longrightarrow> fst (acquire env a) = []"
  proof
    assume h: "frame_file a = ''keep''
      \<and> (\<forall>j<num_kinects env.
            check_path_existence env (view_temp_dir a j) ''dir'' = DirectoryExistNotEmpty)"
    have skip: "fst (acquire_view env a j st) = []" if "j \<in> set [0 ..< num_kinects env]"
      for j st
      using that h by (intro acquire_view_skips) simp_all
    have "\<forall>e\<in>set (fst (for_each (acquire_view env a) [0 ..< num_kinects env] ([], []))).
            e \<noteq> e"
      by (rule trace_for_each_sat) (simp add: skip)
    then show "fst (acquire env a) = []"
      unfolding acquire_def
      by (cases "fst (for_each (acquire_view env a) [0 ..< num_kinects env] ([], []))") auto
  qed
next
  show "completes (acquire env a) \<and> k < num_kinects env
      \<and> \<not> (frame_file a = ''keep''
            \<and> check_path_existence env (view_temp_dir a k) ''dir'' = DirectoryExistNotEmpty)
     \<longrightarrow> GetKinectColor k \<in> set (fst (acquire env a))
         \<and> (frame_file a \<noteq> ''none''
              \<longrightarrow> (\<exists>x. ArrayToImages x (view_temp_dir a k) \<in> set (fst (acquire env a))))"
  proof
    assume h: "completes (acquire env a) \<and> k < num_kinects env
      \<and> \<not> (frame_file a = ''keep''
            \<and> check_path_existence env (view_temp_dir a k) ''dir'' = DirectoryExistNotEmpty)"
    then obtain r where "snd (for_each (acquire_view env a) [0 ..< num_kinects env] ([], []))
                         = Inr r"
      unfolding completes_iff acquire_def by blast
    moreover have "k \<in> set [0 ..< num_kinects env]"
      using h by simp
    ultimately obtain s0 s1 where
      ok: "snd (acquire_view env a k s0) = Inr s1"
      and sub: "set (fst (acquire_view env a k s0)) \<subseteq> set (fst (acquire env a))"
      unfolding acquire_def by (blast dest: for_each_completes_member)
    from acquire_view_materializes [OF ok] h sub
    show "GetKinectColor k \<in> set (fst (acquire env a))
         \<and> (frame_file a \<noteq> ''none''
              \<longrightarrow> (\<exists>x. ArrayToImages x (view_temp_dir a k) \<in> set (fst (acquire env a))))"
      by blast
  qed
qed


theorem keep_reuses_nonempty_view_directory_witness:
  "frame_file (sample_args\<lparr>frame_file := ''keep''\<rparr>) = ''keep''
   \<and> check_path_existence cached_env
         (view_temp_dir (sample_args\<lparr>frame_file := ''keep''\<rparr>) 0) ''dir''
       = DirectoryExistNotEmpty
   \<and> GetKinectColor 0 \<notin> set (fst (acquire cached_env (sample_args\<lparr>frame_file := ''keep''\<rparr>)))
   \<and> completes (acquire cached_env (sample_args\<lparr>frame_file := ''keep''\<rparr>))
   \<and> (1::nat) < num_kinects cached_env
   \<and> check_path_existence cached_env
         (view_temp_dir (sample_args\<lparr>frame_file := ''keep''\<rparr>) 1) ''dir''
       \<noteq> DirectoryExistNotEmpty
   \<and> GetKinectColor 1 \<in> set (fst (acquire cached_env (sample_args\<lparr>frame_file := ''keep''\<rparr>)))"
proof -
  let ?a = "sample_args\<lparr>frame_file := ''keep''\<rparr>"
  have f: "frame_file ?a = ''keep''"
    by simp
  have d0: "check_path_existence cached_env (view_temp_dir ?a 0) ''dir'' = DirectoryExistNotEmpty"
    by code_simp
  have d1: "check_path_existence cached_env (view_temp_dir ?a 1) ''dir''
            \<noteq> DirectoryExistNotEmpty"
    by code_simp
  have ok: "completes (acquire cached_env ?a)"
    by code_simp
  have n: "(1::nat) < num_kinects cached_env"
    by (simp add: cached_env_def sample_env_def)
  have skipped: "GetKinectColor 0 \<notin> set (fst (acquire cached_env ?a))"
    using keep_reuses_nonempty_view_directory [of ?a cached_env 0] f d0 by blast
  have decoded: "GetKinectColor 1 \<in> set (fst (acquire cached_env ?a))"
    using keep_reuses_nonempty_view_directory [of ?a cached_env 1] ok n d1 by blast
  show ?thesis
    using f d0 d1 ok n skipped decoded by blast
qed


text \<open>
  Claim C8, for the triangulator of the specification. For a frame \<open>f\<close> and a joint \<open>j\<close>
  of the fused keypoints: the contributing views are exactly the views that have
  keypoints and mark the joint valid in the frame; with fewer than two of them the
  mask entry is invalid and the entry has no coordinate; with two or more, the
  position is what the solver computes from the observations and cameras of the
  contributing views alone, so that it does not change when the other views (their
  coordinates, their presence, their cameras) change.
\<close>

theorem triangulation_uses_contributing_views_only:
  assumes "f < n_frame" and "j < n_joint"
  shows "set (contributing_views views f j)
           = {v. v < length views \<and> (\<exists>k. views ! v = Some k \<and> valid k f j)}
     \<and> (length (contributing_views views f j) < 2
          \<longrightarrow> mask3d (triangulate solve cams views n_frame n_joint) ! f ! j = False
              \<and> kps3d (triangulate solve cams views n_frame n_joint) ! f ! j = None)
     \<and> (2 \<le> length (contributing_views views f j)
          \<longrightarrow> mask3d (triangulate solve cams views n_frame n_joint) ! f ! j = True
              \<and> kps3d (triangulate solve cams views n_frame n_joint) ! f ! j
                  = Some (solve (map (\<lambda>v. (cams ! v, points (the (views ! v)) f j))
                                   (contributing_views views f j))))
     \<and> (length views' = length views
          \<and> (\<forall>v<length views. contributes (views' ! v) f j = contributes (views ! v) f j)
          \<and> (\<forall>v<length views. contributes (views ! v) f j
                 \<longrightarrow> points (the (views' ! v)) f j = points (the (views ! v)) f j
                     \<and> cams' ! v = cams ! v)
          \<longrightarrow> kps3d (triangulate solve cams' views' n_frame n_joint) ! f ! j
                = kps3d (triangulate solve cams views n_frame n_joint) ! f ! j
              \<and> mask3d (triangulate solve cams' views' n_frame n_joint) ! f ! j
                = mask3d (triangulate solve cams views n_frame n_joint) ! f ! j)"
proof (intro conjI impI)
  show "set (contributing_views views f j)
           = {v. v < length views \<and> (\<exists>k. views ! v = Some k \<and> valid k f j)}"
    by (rule set_contributing_views)
next
  assume "length (contributing_views views f j) < 2"
  then have "triangulate_joint solve cams views f j = None"
    by (simp add: triangulate_joint_def Let_def)
  then show "mask3d (triangulate solve cams views n_frame n_joint) ! f ! j = False"
    and "kps3d (triangulate solve cams views n_frame n_joint) ! f ! j = None"
    using assms by (simp_all add: triangulate_entry)
next
  assume "2 \<le> length (contributing_views views f j)"
  then have "triangulate_joint solve cams views f j
      = Some (solve (map (\<lambda>v. (cams ! v, points (the (views ! v)) f j))
                       (contributing_views views f j)))"
    by (simp add: triangulate_joint_def Let_def)
  then show "mask3d (triangulate solve cams views n_frame n_joint) ! f ! j = True"
    and "kps3d (triangulate solve cams views n_frame n_joint) ! f ! j
                  = Some (solve (map (\<lambda>v. (cams ! v, points (the (views ! v)) f j))
                                   (contributing_views views f j)))"
    using assms by (simp_all add: triangulate_entry)
next
  assume h: "length views' = length views
          \<and> (\<forall>v<length views. contributes (views' ! v) f j = contributes (views ! v) f j)
          \<and> (\<forall>v<length views. contributes (views ! v) f j
                 \<longrightarrow> points (the (views' ! v)) f j = points (the (views ! v)) f j
                     \<and> cams' ! v = cams ! v)"
  then have "triangulate_joint solve cams' views' f j = triangulate_joint solve cams views f j"
    by (intro triangulate_joint_cong) blast+
  then show "kps3d (triangulate solve cams' views' n_frame n_joint) ! f ! j
                = kps3d (triangulate solve cams views n_frame n_joint) ! f ! j"
    and "mask3d (triangulate solve cams' views' n_frame n_joint) ! f ! j
                = mask3d (triangulate solve cams views n_frame n_joint) ! f ! j"
    using assms by (simp_all add: triangulate_entry)
qed

theorem triangulation_uses_contributing_views_only_witness:
  "(0::nat) < 1 \<and> (1::nat) < 2
   \<and> length (contributing_views sample_views 0 1) < 2
   \<and> kps3d (triangulate length [10, 11, 12 :: nat] sample_views 1 2) ! 0 ! 1 = None
   \<and> 2 \<le> length (contributing_views sample_views 0 0)
   \<and> kps3d (triangulate length [10, 11, 12 :: nat] sample_views 1 2) ! 0 ! 0
       = Some (length [(10 :: nat, (1 :: int, 2 :: int)), (12, (3, 4))])"
proof -
  have few: "length (contributing_views sample_views 0 1) < 2"
    by code_simp
  have two: "2 \<le> length (contributing_views sample_views 0 0)"
    by code_simp
  have obs: "map (\<lambda>v. ([10, 11, 12 :: nat] ! v, points (the (sample_views ! v)) 0 0))
               (contributing_views sample_views 0 0)
             = [(10, (1, 2)), (12, (3, 4))]"
    by code_simp
  have b: "(0::nat) < 1" "(1::nat) < 2" "(0::nat) < 2"
    by simp_all
  show ?thesis
    using triangulation_uses_contributing_views_only
            [OF b(1) b(2), of sample_views length "[10, 11, 12 :: nat]"]
      triangulation_uses_contributing_views_only
            [OF b(1) b(3), of sample_views length "[10, 11, 12 :: nat]"]
      few two obs
    by simp
qed


text \<open>
  Claim C1, with the cameras loaded by the Calibration Normalizer of the
  specification. The list the run works with has one camera per raw record, each with
  the flag reading camera-to-world; a camera whose raw record was flagged
  world-to-camera stores the inverted rotation and the translation that
  \<^verbatim>\<open>inverse_extrinsic\<close> computes from the raw values, and the other cameras are
  unchanged. Every camera the run hands to the estimator (\<^verbatim>\<open>run\<close>,
  \<^verbatim>\<open>estimate_keypoints3d\<close>) or to the body-model renderer reads camera-to-world.
\<close>

theorem cameras_are_camera_to_world:
  assumes "get_all_color_kinect_parameter_from_smc env = calibration_normalizer env raw"
  shows "(\<forall>cams. snd (load_inputs env a) = Inr cams \<longrightarrow>
            length cams = length raw
            \<and> (\<forall>i<length raw.
                 \<not> world2cam (cams ! i)
                 \<and> intrinsic (cams ! i) = intrinsic (raw ! i)
                 \<and> (world2cam (raw ! i) \<longrightarrow>
                      extrinsic_r (cams ! i) = linalg_inv env (extrinsic_r (raw ! i))
                      \<and> extrinsic_t (cams ! i)
                          = neg_dot env (linalg_inv env (extrinsic_r (raw ! i)))
                              (extrinsic_t (raw ! i)))
                 \<and> (\<not> world2cam (raw ! i) \<longrightarrow> cams ! i = raw ! i)))
     \<and> (\<forall>c p. EstimatorRun c p \<in> set (fst (main env a)) \<longrightarrow> (\<forall>x\<in>set c. \<not> world2cam x))
     \<and> (\<forall>c k. EstimateKeypoints3d c k \<in> set (fst (main env a))
           \<longrightarrow> (\<forall>x\<in>set c. \<not> world2cam x))
     \<and> (\<forall>d c x p. VisualizeSmplCalibration d c x p \<in> set (fst (main env a))
           \<longrightarrow> \<not> world2cam c)"
proof -
  have loaded: "cams = map (to_camera_to_world env) raw"
    if "snd (load_inputs env a) = Inr cams" for cams
    using load_inputs_Inr [OF that] assms
    by (simp add: calibration_normalizer_def split: if_splits)
  have one: "length cams = length raw
            \<and> (\<forall>i<length raw.
                 \<not> world2cam (cams ! i)
                 \<and> intrinsic (cams ! i) = intrinsic (raw ! i)
                 \<and> (world2cam (raw ! i) \<longrightarrow>
                      extrinsic_r (cams ! i) = linalg_inv env (extrinsic_r (raw ! i))
                      \<and> extrinsic_t (cams ! i)
                          = neg_dot env (linalg_inv env (extrinsic_r (raw ! i)))
                              (extrinsic_t (raw ! i)))
                 \<and> (\<not> world2cam (raw ! i) \<longrightarrow> cams ! i = raw ! i))"
    if "snd (load_inputs env a) = Inr cams" for cams
    unfolding loaded [OF that]
    by (simp add: to_camera_to_world_def inverse_extrinsic_def Let_def)
  have flags: "\<forall>x\<in>set cams. \<not> world2cam x" if "snd (load_inputs env a) = Inr cams" for cams
    unfolding loaded [OF that] by simp
  have two: "\<forall>x\<in>set c. \<not> world2cam x" if "EstimatorRun c p \<in> set (fst (main env a))" for c p
    using main_estimator_run_cameras [OF that] flags by blast
  have three: "\<forall>x\<in>set c. \<not> world2cam x"
    if "EstimateKeypoints3d c k \<in> set (fst (main env a))" for c k
    using main_estimate_keypoints3d_cameras [OF that] flags by blast
  have four: "\<not> world2cam c"
    if "VisualizeSmplCalibration d c x p \<in> set (fst (main env a))" for d c x p
    using main_visualize_smpl_camera [OF that] by blast
  show ?thesis
    using one two three four by blast
qed

theorem cameras_are_camera_to_world_witness:
  "get_all_color_kinect_parameter_from_smc normalizing_env
     = calibration_normalizer normalizing_env [sample_cam, raw_cam]
   \<and> snd (load_inputs normalizing_env sample_args)
       = Inr [sample_cam,
              \<lparr>intrinsic = 0, extrinsic_r = 15, extrinsic_t = 21, world2cam = False\<rparr>]
   \<and> world2cam ([sample_cam, raw_cam] ! 1)
   \<and> \<not> world2cam
         ([sample_cam,
           \<lparr>intrinsic = 0, extrinsic_r = 15, extrinsic_t = 21, world2cam = False\<rparr>] ! 1)
   \<and> extrinsic_r
         ([sample_cam,
           \<lparr>intrinsic = 0, extrinsic_r = 15, extrinsic_t = 21, world2cam = False\<rparr>] ! 1)
       = linalg_inv normalizing_env (extrinsic_r ([sample_cam, raw_cam] ! 1))
   \<and> EstimateKeypoints3d
        [sample_cam, \<lparr>intrinsic = 0, extrinsic_r = 15, extrinsic_t = 21, world2cam = False\<rparr>]
        [Some 200, Some 201, None, Some 203]
       \<in> set (fst (main normalizing_env sample_args))"
proof -
  let ?cams = "[sample_cam,
                \<lparr>intrinsic = 0, extrinsic_r = 15, extrinsic_t = 21, world2cam = False\<rparr>]"
  have h: "get_all_color_kinect_parameter_from_smc normalizing_env
     = calibration_normalizer normalizing_env [sample_cam, raw_cam]"
    by (simp add: normalizing_env_def calibration_normalizer_def to_camera_to_world_def
          inverse_extrinsic_def)
  have l: "snd (load_inputs normalizing_env sample_args) = Inr ?cams"
    by code_simp
  have w: "world2cam ([sample_cam, raw_cam] ! 1)"
    by (simp add: raw_cam_def)
  have e: "EstimateKeypoints3d ?cams [Some 200, Some 201, None, Some 203]
             \<in> set (fst (main normalizing_env sample_args))"
    by code_simp
  have i: "(1::nat) < length [sample_cam, raw_cam]"
    by simp
  have "\<not> world2cam (?cams ! 1)
        \<and> extrinsic_r (?cams ! 1)
            = linalg_inv normalizing_env (extrinsic_r ([sample_cam, raw_cam] ! 1))"
    using cameras_are_camera_to_world [OF h, of sample_args] l w i by blast
  then show ?thesis
    using h l w e by blast
qed

text \<open>
  Claim C7, with the batch call of the specification. Let the frame files of every
  view, read in the order of the sorted list, be the frames the capture holds for
  that view (the same logical input), and let no effect call raise. Then the
  in-memory path (one 2D call per view, then \<^verbatim>\<open>estimate_keypoints3d\<close> and
  \<^verbatim>\<open>estimate_smpl\<close>) and the on-disk path (one call of \<^verbatim>\<open>run\<close>) end lines 56-98 with
  the same result: the same 2D keypoints, 3D keypoints and body-model parameters, or
  the same exception of the estimator.
\<close>

theorem batch_run_agrees_with_separate_calls:
  assumes "run env = batch_run env imread"
    and "\<forall>k<num_kinects env. \<exists>fr. get_kinect_color env k = Inr fr
           \<and> imread (sort (glob env (os_path_join (view_temp_dir a k) ''*.png'')))
               = rgb2bgr env fr"
    and "\<forall>ev. effect env ev = None"
    and "frame_file a \<noteq> ''none''"
  shows "snd (reconstruct env (a\<lparr>frame_file := ''none''\<rparr>) cams) = snd (reconstruct env a cams)"
proof -
  let ?mem = "a\<lparr>frame_file := ''none''\<rparr>"
  let ?fr = "\<lambda>k. projr (get_kinect_color env k)"
  let ?paths = "map (\<lambda>k. sort (glob env (os_path_join (view_temp_dir a k) ''*.png'')))
                  [0 ..< num_kinects env]"
  let ?arrays = "map (\<lambda>k. expand_dims0 env (rgb2bgr env (?fr k))) [0 ..< num_kinects env]"
  have got: "\<forall>k\<in>set [0 ..< num_kinects env]. get_kinect_color env k = Inr (?fr k)"
    using assms(2) by auto
  have same: "map (\<lambda>ps. expand_dims0 env (imread ps)) ?paths = ?arrays"
    using assms(2) by auto
  have mem: "snd (acquire env ?mem)
     = (case estimate_views env ?arrays of Inl e \<Rightarrow> Inl e | Inr l \<Rightarrow> Inr (l, []))"
    unfolding acquire_def
    using acquire_loop_in_memory_result [of ?mem "[0 ..< num_kinects env]" env ?fr "[]" "[]"] got
    by (simp split: sum.splits)
  have disk: "snd (acquire env a) = Inr ([], ?paths)"
    unfolding acquire_def
    using acquire_loop_on_disk_result [OF assms(4) _ assms(3), of "[0 ..< num_kinects env]" "[]" "[]"]
      got
    by auto
  have left: "snd (reconstruct env ?mem cams)
     = (case estimate_views env ?arrays of
          Inl e \<Rightarrow> Inl e
        | Inr kps \<Rightarrow>
            (case estimate_keypoints3d env cams kps of
               Inl e \<Rightarrow> Inl e
             | Inr k3 \<Rightarrow>
                 (case estimate_smpl env k3 of
                    Inl e \<Rightarrow> Inl e
                  | Inr s \<Rightarrow> Inr (kps, k3, s))))"
    using mem
    by (simp add: reconstruct_def prepare_frames_def estimate_def and_then_def
          split: sum.splits)
  have right: "snd (reconstruct env a cams) = batch_run env imread cams ?paths"
    using disk assms(1,3,4)
    by (simp add: reconstruct_def prepare_frames_def estimate_def and_then_def perform_def)
  show ?thesis
    unfolding left right batch_run_def same ..
qed


theorem batch_run_agrees_with_separate_calls_witness:
  "run batch_env = batch_run batch_env sample_imread
   \<and> (\<forall>ev. effect batch_env ev = None)
   \<and> frame_file (sample_args\<lparr>frame_file := ''keep''\<rparr>) \<noteq> ''none''
   \<and> get_kinect_color batch_env 2 = Inr 102
   \<and> sample_imread
        (sort (glob batch_env
                 (os_path_join (view_temp_dir (sample_args\<lparr>frame_file := ''keep''\<rparr>) 2)
                    ''*.png'')))
       = rgb2bgr batch_env 102
   \<and> snd (reconstruct batch_env (sample_args\<lparr>frame_file := ''keep''\<rparr>)
            (replicate 4 sample_cam))
       = Inr ([Some 200, Some 201, None, Some 203], Some 7, Some (SMPLXData 9))
   \<and> snd (reconstruct batch_env (sample_args\<lparr>frame_file := ''none''\<rparr>)
            (replicate 4 sample_cam))
       = Inr ([Some 200, Some 201, None, Some 203], Some 7, Some (SMPLXData 9))"
proof -
  let ?a = "sample_args\<lparr>frame_file := ''keep''\<rparr>"
  have r: "run batch_env = batch_run batch_env sample_imread"
    by (simp add: batch_env_def batch_run_run_update)
  have e: "\<forall>ev. effect batch_env ev = None"
    by (simp add: batch_env_def sample_env_def)
  have f: "frame_file ?a \<noteq> ''none''"
    by simp
  have v: "get_kinect_color batch_env k = Inr (100 + k)
           \<and> sample_imread
                (sort (glob batch_env (os_path_join (view_temp_dir ?a k) ''*.png'')))
               = rgb2bgr batch_env (100 + k)"
    if "k = 0 \<or> k = 1 \<or> k = 2 \<or> k = 3" for k
    using that by (elim disjE; hypsubst) code_simp+
  have n: "num_kinects batch_env = 4"
    by (simp add: batch_env_def sample_env_def)
  have frames: "\<forall>k<num_kinects batch_env. \<exists>fr. get_kinect_color batch_env k = Inr fr
           \<and> sample_imread
                (sort (glob batch_env (os_path_join (view_temp_dir ?a k) ''*.png'')))
               = rgb2bgr batch_env fr"
  proof (intro allI impI)
    fix k
    assume "k < num_kinects batch_env"
    then have "k = 0 \<or> k = 1 \<or> k = 2 \<or> k = 3"
      unfolding n by arith
    from v [OF this] show "\<exists>fr. get_kinect_color batch_env k = Inr fr
           \<and> sample_imread
                (sort (glob batch_env (os_path_join (view_temp_dir ?a k) ''*.png'')))
               = rgb2bgr batch_env fr"
      by blast
  qed
  have disk: "snd (reconstruct batch_env ?a (replicate 4 sample_cam))
       = Inr ([Some 200, Some 201, None, Some 203], Some 7, Some (SMPLXData 9))"
    by code_simp
  have "snd (reconstruct batch_env (?a\<lparr>frame_file := ''none''\<rparr>) (replicate 4 sample_cam))
        = snd (reconstruct batch_env ?a (replicate 4 sample_cam))"
    by (rule batch_run_agrees_with_separate_calls [OF r frames e f])
  then have mem: "snd (reconstruct batch_env (sample_args\<lparr>frame_file := ''none''\<rparr>)
                         (replicate 4 sample_cam))
       = Inr ([Some 200, Some 201, None, Some 203], Some 7, Some (SMPLXData 9))"
    using disk by simp
  show ?thesis
    using r e f v [of 2] disk mem by simp
qed


end
